theory Spec2Isabelle
  imports Complex_Main "HOL-Library.Log_Nat" "HOL-Library.AList"
begin

section \<open>JavaScript values used by the client\<close>

text \<open>
  A thrown JavaScript error is the value \<open>Inl msg\<close>, where \<open>msg\<close> is \<open>err.message\<close>
  (the empty string when the error carries no message, which is falsy like \<open>undefined\<close>).
\<close>

type_synonym 'a throws = "string + 'a"

text \<open>\<open>err.message || fallback\<close>\<close>

definition orElse :: "string \<Rightarrow> string \<Rightarrow> string" where
  "orElse msg fallback = (if msg = [] then fallback else msg)"

text \<open>
  \<open>BigNumber.toNumber()\<close> of ethers v5: the value as a JavaScript number, and an exception
  when it needs more than 53 bits.
\<close>

definition toNumber :: "nat \<Rightarrow> int throws" where
  "toNumber n = (if n < 2 ^ 53 then Inr (int n) else Inl ''overflow'')"

text \<open>\<open>xs.map(f)\<close> where \<open>f\<close> may throw: the first exception aborts the map.\<close>

fun mapThrows :: "('a \<Rightarrow> 'b throws) \<Rightarrow> 'a list \<Rightarrow> 'b list throws" where
  "mapThrows f [] = Inr []"
| "mapThrows f (x # xs) =
     (case f x of
        Inl e \<Rightarrow> Inl e
      | Inr y \<Rightarrow> (case mapThrows f xs of Inl e \<Rightarrow> Inl e | Inr ys \<Rightarrow> Inr (y # ys)))"

text \<open>
  \<open>Array.from(new Set(xs))\<close>: a \<open>Set\<close> keeps its elements in insertion order and ignores
  the insertion of an element it already holds.
\<close>

definition setAdd :: "'a \<Rightarrow> 'a list \<Rightarrow> 'a list" where
  "setAdd x s = (if x \<in> set s then s else s @ [x])"

definition arrayFromSet :: "'a list \<Rightarrow> 'a list" where
  "arrayFromSet xs = fold setAdd xs []"

section \<open>The ledger as the client observes it\<close>

text \<open>
  The record that \<open>gameRoom.rooms(id)\<close> returns: the contract's integers are BigNumbers
  (naturals), the enumerations \<open>gameType\<close>, \<open>status\<close> and \<open>roomType\<close> arrive as numbers.
\<close>

record rawRoom =
  raw_id :: nat
  raw_creator :: string
  raw_entryFee :: nat
  raw_maxPlayers :: nat
  raw_currentPlayers :: nat
  raw_gameType :: int
  raw_status :: int
  raw_roomType :: int
  raw_creationTime :: nat
  raw_expirationTime :: nat
  raw_prizePool :: nat
  raw_winner :: string
  raw_prizeClaimed :: bool

text \<open>
  One snapshot of the ledger: what each read returns (or throws) and how each mutating call
  ends (\<open>None\<close>: mined; \<open>Some msg\<close>: the call or its receipt throws with that message).
  The contract itself is not part of the client; \<open>scoreSubmitted\<close> is the ledger's own
  fact "this address has submitted a score for this room", which no read of the client
  returns.
\<close>

record ledger =
  rooms :: "int \<Rightarrow> rawRoom throws"
  getPlayers :: "int \<Rightarrow> string list throws"
  getPlayerRooms :: "string \<Rightarrow> nat list throws"
  submitScoreTx :: "int \<Rightarrow> int \<Rightarrow> string option"
  claimPrizeTx :: "int \<Rightarrow> string option"
  scoreSubmitted :: "int \<Rightarrow> string \<Rightarrow> bool"

text \<open>
  The client's surroundings: whether the contract handle \<open>gameRoom\<close> exists, whether a
  wallet is connected, the wallet address \<open>user?.wallet?.address\<close>, the ledger snapshot
  that the \<open>n\<close>-th awaited ledger interaction meets (other clients write between two
  reads), and the clock \<open>Math.floor(Date.now() / 1000)\<close> at that moment.
\<close>

record env =
  gameRoom :: bool
  walletConnected :: bool
  walletAddress :: "string option"
  chain :: "nat \<Rightarrow> ledger"
  nowSec :: "nat \<Rightarrow> int"

text \<open>
  The state of the \<open>useGameRoom\<close> hook, with the number of ledger interactions awaited so
  far and the logs of the mutating \<open>submitScore\<close> and \<open>claimPrize\<close> calls issued to the
  ledger.
\<close>

record hook =
  userRooms :: "int list"
  loading :: bool
  hookError :: "string option"
  tick :: nat
  submitCalls :: "(int \<times> int) list"
  claimCalls :: "int list"

definition await :: "hook \<Rightarrow> hook" where
  "await h = h\<lparr>tick := Suc (tick h)\<rparr>"

definition truthy :: "string option \<Rightarrow> bool" where
  "truthy s = (case s of None \<Rightarrow> False | Some a \<Rightarrow> a \<noteq> [])"

section \<open>useGameRoom: getUserRooms\<close>

definition getUserRooms :: "env \<Rightarrow> hook \<Rightarrow> string option \<Rightarrow> int list \<times> hook" where
  "getUserRooms e h address =
     (if \<not> gameRoom e then ([], h)
      else let userAddress = (if truthy address then address else walletAddress e) in
        if \<not> truthy userAddress then ([], h)
        else
          let h1 = h\<lparr>loading := True, hookError := None\<rparr>;
              h2 = await h1 in
          (case getPlayerRooms (chain e (tick h1)) (the userAddress) of
             Inl msg \<Rightarrow>
               ([], h2\<lparr>hookError := Some (orElse msg ''Failed to get user rooms''),
                        loading := False\<rparr>)
           | Inr roomList \<Rightarrow>
               (case mapThrows toNumber roomList of
                  Inl msg \<Rightarrow>
                    ([], h2\<lparr>hookError := Some (orElse msg ''Failed to get user rooms''),
                             loading := False\<rparr>)
                | Inr rawRoomIds \<Rightarrow>
                    let validRoomIds = filter (\<lambda>i. i > 0) rawRoomIds;
                        uniqueRoomIds = arrayFromSet validRoomIds
                    in (uniqueRoomIds, h2\<lparr>userRooms := uniqueRoomIds, loading := False\<rparr>))))"

section \<open>JavaScript strings\<close>

text \<open>
  \<open>toLowerCase\<close> on the ASCII letters; ledger addresses are \<open>0x\<close> followed by hexadecimal
  digits, where this is all that \<open>String.prototype.toLowerCase\<close> changes.
\<close>

definition toLowerChar :: "char \<Rightarrow> char" where
  "toLowerChar c =
     (let n = (of_char c :: nat) in if 65 \<le> n \<and> n \<le> 90 then char_of (n + 32) else c)"

definition toLowerCase :: "string \<Rightarrow> string" where
  "toLowerCase s = map toLowerChar s"

text \<open>\<open>s.includes(t)\<close>\<close>

fun includesStr :: "string \<Rightarrow> string \<Rightarrow> bool" where
  "includesStr [] t = (t = [])"
| "includesStr (c # cs) t = (take (length t) (c # cs) = t \<or> includesStr cs t)"

section \<open>useGameRoom: getRoomDetails\<close>

text \<open>Decimal digits of a natural number: \<open>BigNumber.toString()\<close>.\<close>

definition digitChar :: "nat \<Rightarrow> char" where
  "digitChar d = char_of (48 + d)"

function toString :: "nat \<Rightarrow> string" where
  "toString n = (if n < 10 then [digitChar n] else toString (n div 10) @ [digitChar (n mod 10)])"
  by pat_completeness auto
termination
  by (relation "measure (\<lambda>n. n)") auto

declare toString.simps [simp del]

text \<open>The room as \<open>getRoomDetails\<close> formats it for its callers.\<close>

record room =
  room_id :: int
  room_creator :: string
  room_entryFee :: string
  room_maxPlayers :: int
  room_currentPlayers :: int
  room_gameType :: int
  room_status :: int
  room_roomType :: int
  room_creationTime :: int
  room_expirationTime :: int
  room_prizePool :: string
  room_winner :: string
  room_prizeClaimed :: bool

text \<open>
  The object literal of \<open>getRoomDetails\<close>: its five \<open>toNumber()\<close> calls run in the order of
  the fields, and the first one that overflows throws.
\<close>

definition formatRoom :: "rawRoom \<Rightarrow> room throws" where
  "formatRoom raw =
     (case toNumber (raw_id raw) of
        Inl msg \<Rightarrow> Inl msg
      | Inr i \<Rightarrow>
     (case toNumber (raw_maxPlayers raw) of
        Inl msg \<Rightarrow> Inl msg
      | Inr mp \<Rightarrow>
     (case toNumber (raw_currentPlayers raw) of
        Inl msg \<Rightarrow> Inl msg
      | Inr cp \<Rightarrow>
     (case toNumber (raw_creationTime raw) of
        Inl msg \<Rightarrow> Inl msg
      | Inr ct \<Rightarrow>
     (case toNumber (raw_expirationTime raw) of
        Inl msg \<Rightarrow> Inl msg
      | Inr et \<Rightarrow>
          Inr \<lparr>room_id = i,
               room_creator = raw_creator raw,
               room_entryFee = toString (raw_entryFee raw),
               room_maxPlayers = mp,
               room_currentPlayers = cp,
               room_gameType = raw_gameType raw,
               room_status = raw_status raw,
               room_roomType = raw_roomType raw,
               room_creationTime = ct,
               room_expirationTime = et,
               room_prizePool = toString (raw_prizePool raw),
               room_winner = raw_winner raw,
               room_prizeClaimed = raw_prizeClaimed raw\<rparr>)))))"

text \<open>
  \<open>roomId\<close> is an integer here, so \<open>!roomId || isNaN(roomId) || roomId <= 0\<close> is
  \<open>roomId \<le> 0\<close>. \<open>ethers.BigNumber.from(roomId)\<close> throws an overflow fault for a number
  from \<open>2 ^ 53 - 1\<close> on, before any read; \<open>overflow\<close> stands for the message that the
  library composes for it. Every exception of the \<open>try\<close> block ends in \<open>null\<close>.
\<close>

definition getRoomDetails :: "env \<Rightarrow> hook \<Rightarrow> int \<Rightarrow> room option \<times> hook" where
  "getRoomDetails e h roomId =
     (if \<not> gameRoom e then (None, h)
      else
        let h1 = h\<lparr>loading := True, hookError := None\<rparr> in
        if roomId \<le> 0
        then (None, h1\<lparr>hookError := Some ''Invalid room ID provided'', loading := False\<rparr>)
        else if 2 ^ 53 - 1 \<le> roomId
        then (None, h1\<lparr>hookError := Some ''overflow'', loading := False\<rparr>)
        else
          let h2 = await h1 in
          (case rooms (chain e (tick h1)) roomId of
             Inl msg \<Rightarrow>
               (None, h2\<lparr>hookError := Some (orElse msg ''Failed to get room details''),
                         loading := False\<rparr>)
           | Inr raw \<Rightarrow>
               (case formatRoom raw of
                  Inl msg \<Rightarrow>
                    (None, h2\<lparr>hookError := Some (orElse msg ''Failed to get room details''),
                              loading := False\<rparr>)
                | Inr r \<Rightarrow> (Some r, h2\<lparr>loading := False\<rparr>))))"

section \<open>useGameRoom: getPlayersInRoom\<close>

record player =
  playerAddress :: string
  playerScore :: int
  hasSubmittedScore :: bool
  playerTimestamp :: int

text \<open>
  The callback of \<open>playerAddresses.map\<close>: \<open>null\<close> for a falsy address; otherwise the
  entry, whose \<open>hasSubmittedScore\<close> is set from the room's status and winner only.
\<close>

definition formatPlayer :: "room \<Rightarrow> string \<Rightarrow> player option" where
  "formatPlayer r address =
     (if address = [] then None
      else Some \<lparr>playerAddress = address,
                 playerScore = 0,
                 hasSubmittedScore =
                   (room_status r = 2 \<and> room_winner r \<noteq> []
                    \<and> toLowerCase (room_winner r) = toLowerCase address),
                 playerTimestamp = 0\<rparr>)"

definition getPlayersInRoom :: "env \<Rightarrow> hook \<Rightarrow> int \<Rightarrow> player list \<times> hook" where
  "getPlayersInRoom e h roomId =
     (if \<not> gameRoom e then ([], h)
      else
        let h1 = h\<lparr>loading := True, hookError := None\<rparr>;
            h2 = await h1 in
        (case getPlayers (chain e (tick h1)) roomId of
           Inl msg \<Rightarrow>
             ([], h2\<lparr>hookError := Some (orElse msg ''Failed to get players in room''),
                      loading := False\<rparr>)
         | Inr playerAddresses \<Rightarrow>
             if playerAddresses = [] then ([], h2\<lparr>loading := False\<rparr>)
             else
               (case getRoomDetails e h2 roomId of
                  (None, h3) \<Rightarrow> ([], h3\<lparr>loading := False\<rparr>)
                | (Some r, h3) \<Rightarrow>
                    (List.map_filter (formatPlayer r) playerAddresses,
                     h3\<lparr>loading := False\<rparr>))))"

section \<open>useGameRoom: submitScore\<close>

record submitResult =
  success :: bool
  error :: "string option"
  statusError :: bool
  notPlayerError :: bool
  alreadySubmittedError :: bool

definition rejected :: "string \<Rightarrow> submitResult" where
  "rejected msg = \<lparr>success = False, error = Some msg, statusError = False,
                    notPlayerError = False, alreadySubmittedError = False\<rparr>"

definition accepted :: submitResult where
  "accepted = \<lparr>success = True, error = None, statusError = False,
                notPlayerError = False, alreadySubmittedError = False\<rparr>"

text \<open>The \<open>switch\<close> on \<open>room.status\<close>; \<open>"unknown"\<close> is the initial value it leaves untouched.\<close>

definition statusText :: "int \<Rightarrow> string" where
  "statusText s =
     (if s = 0 then ''Filling''
      else if s = 2 then ''Completed''
      else if s = 3 then ''Expired''
      else if s = 4 then ''Canceled''
      else ''unknown'')"

text \<open>
  \<open>isPlayer\<close> and \<open>hasSubmitted\<close>: \<open>currentUserAddress\<close> is the lower-cased wallet address
  (or \<open>undefined\<close>), and \<open>players.some(...)\<close> compares lower-cased roster addresses with it.
\<close>

definition isPlayerIn :: "string option \<Rightarrow> player list \<Rightarrow> bool" where
  "isPlayerIn currentUserAddress players =
     (truthy currentUserAddress
      \<and> list_ex (\<lambda>p. playerAddress p \<noteq> []
                     \<and> Some (toLowerCase (playerAddress p)) = currentUserAddress) players)"

definition hasSubmittedIn :: "string option \<Rightarrow> player list \<Rightarrow> bool" where
  "hasSubmittedIn currentUserAddress players =
     (truthy currentUserAddress
      \<and> list_ex (\<lambda>p. playerAddress p \<noteq> []
                     \<and> Some (toLowerCase (playerAddress p)) = currentUserAddress
                     \<and> hasSubmittedScore p) players)"

text \<open>The \<open>catch\<close> block of \<open>submitScore\<close>: the message shown for a thrown error.\<close>

definition submitErrorMessage :: "string \<Rightarrow> string" where
  "submitErrorMessage msg =
     (if msg = [] then ''Failed to submit score''
      else if includesStr msg ''room not active''
        then ''Room must be in Active status to submit scores''
      else if includesStr msg ''not a player'' then ''You are not a player in this room''
      else if includesStr msg ''already submitted''
        then ''You have already submitted a score for this room''
      else if includesStr msg ''room not found'' then ''Room not found or has been deleted''
      else msg)"

definition submitScore :: "env \<Rightarrow> hook \<Rightarrow> int \<Rightarrow> int \<Rightarrow> submitResult \<times> hook" where
  "submitScore e h roomId points =
     (if \<not> gameRoom e
      then (rejected ''Game room contract not initialized'',
            h\<lparr>hookError := Some ''Game room contract not initialized''\<rparr>)
      else
        (case getRoomDetails e (h\<lparr>loading := True, hookError := None\<rparr>) roomId of
           (None, h2) \<Rightarrow>
             (rejected ''Room not found or has been deleted'',
              h2\<lparr>hookError := Some ''Room not found or has been deleted'', loading := False\<rparr>)
         | (Some r, h2) \<Rightarrow>
             if room_status r \<noteq> 1 then
               (let errorMsg = ''Room must be in Active status to submit scores. Current status: ''
                                 @ statusText (room_status r)
                in ((rejected errorMsg)\<lparr>statusError := True\<rparr>,
                    h2\<lparr>hookError := Some errorMsg, loading := False\<rparr>))
             else
               (case getPlayersInRoom e h2 roomId of
                  (players, h3) \<Rightarrow>
                    let currentUserAddress = map_option toLowerCase (walletAddress e) in
                    if \<not> isPlayerIn currentUserAddress players then
                      ((rejected ''You are not a player in this room'')\<lparr>notPlayerError := True\<rparr>,
                       h3\<lparr>hookError := Some ''You are not a player in this room'',
                          loading := False\<rparr>)
                    else if hasSubmittedIn currentUserAddress players then
                      ((rejected ''You have already submitted a score for this room'')
                         \<lparr>alreadySubmittedError := True\<rparr>,
                       h3\<lparr>hookError := Some ''You have already submitted a score for this room'',
                          loading := False\<rparr>)
                    else
                      (let h4 = await (h3\<lparr>submitCalls := submitCalls h3 @ [(roomId, points)]\<rparr>)
                       in case submitScoreTx (chain e (tick h3)) roomId points of
                            None \<Rightarrow> (accepted, h4\<lparr>loading := False\<rparr>)
                          | Some msg \<Rightarrow>
                              (rejected (submitErrorMessage msg),
                               h4\<lparr>hookError := Some (submitErrorMessage msg),
                                  loading := False\<rparr>)))))"

section \<open>JavaScript numbers\<close>

text \<open>
  A JavaScript number is an IEEE 754 double. The model keeps the finite doubles as the
  rationals they denote and \<open>NaN\<close> as \<open>None\<close>; every arithmetic operation computes the
  exact result and rounds it to the nearest double, ties to even (\<open>fl\<close>). The exponent is
  not bounded: infinities and subnormal numbers are outside the model, and the quantities of
  this program (pools of points, seconds) are far from both.
\<close>

type_synonym number = "rat option"

text \<open>For \<open>q > 0\<close>, the exponent \<open>k\<close> with \<open>2 ^ k \<le> q < 2 ^ (k + 1)\<close>.\<close>

definition binade :: "rat \<Rightarrow> int" where
  "binade q = (if 1 \<le> q then bitlen \<lfloor>q\<rfloor> - 1 else - bitlen (\<lceil>1 / q\<rceil> - 1))"

definition roundHalfEven :: "rat \<Rightarrow> int" where
  "roundHalfEven q =
     (let n = \<lfloor>q\<rfloor>; r = q - of_int n
      in if r < 1 / 2 then n else if 1 / 2 < r then n + 1 else if even n then n else n + 1)"

text \<open>Rounding to 53 significant bits.\<close>

definition fl :: "rat \<Rightarrow> rat" where
  "fl q =
     (if q = 0 then 0
      else let k = binade \<bar>q\<bar> - 52
           in sgn q * of_int (roundHalfEven (\<bar>q\<bar> / 2 powi k)) * 2 powi k)"

text \<open>An integer held in a JavaScript number, and a decimal literal such as \<open>0.1\<close>.\<close>

definition num :: "int \<Rightarrow> number" where
  "num i = Some (fl (of_int i))"

definition literal :: "rat \<Rightarrow> number" where
  "literal q = Some (fl q)"

definition jsMul :: "number \<Rightarrow> number \<Rightarrow> number" where
  "jsMul a b = (case (a, b) of (Some x, Some y) \<Rightarrow> Some (fl (x * y)) | _ \<Rightarrow> None)"

text \<open>Division by a non-zero number (the divisors of this program are literals).\<close>

definition jsDiv :: "number \<Rightarrow> number \<Rightarrow> number" where
  "jsDiv a b =
     (case (a, b) of (Some x, Some y) \<Rightarrow> if y = 0 then None else Some (fl (x / y))
      | _ \<Rightarrow> None)"

definition jsSub :: "number \<Rightarrow> number \<Rightarrow> number" where
  "jsSub a b = (case (a, b) of (Some x, Some y) \<Rightarrow> Some (fl (x - y)) | _ \<Rightarrow> None)"

definition jsLess :: "number \<Rightarrow> number \<Rightarrow> bool" where
  "jsLess a b = (case (a, b) of (Some x, Some y) \<Rightarrow> x < y | _ \<Rightarrow> False)"

text \<open>\<open>Math.floor\<close>: the floor of a double is a double.\<close>

definition mathFloor :: "number \<Rightarrow> number" where
  "mathFloor a = map_option (\<lambda>q. of_int \<lfloor>q\<rfloor>) a"

definition isNaN :: "number \<Rightarrow> bool" where
  "isNaN a = (a = None)"

text \<open>
  \<open>parseInt(s)\<close> without a radix: leading white space, an optional sign, then the longest
  run of decimal digits (hexadecimal ones after \<open>0x\<close>); \<open>NaN\<close> when there is no digit.
\<close>

definition isWhite :: "char \<Rightarrow> bool" where
  "isWhite c = ((of_char c :: nat) \<in> {9, 10, 11, 12, 13, 32})"

definition hexValue :: "char \<Rightarrow> nat option" where
  "hexValue c =
     (let n = (of_char c :: nat)
      in if 48 \<le> n \<and> n \<le> 57 then Some (n - 48)
         else if 97 \<le> n \<and> n \<le> 102 then Some (n - 87)
         else if 65 \<le> n \<and> n \<le> 70 then Some (n - 55)
         else None)"

definition digitValue :: "nat \<Rightarrow> char \<Rightarrow> nat option" where
  "digitValue radix c =
     (case hexValue c of None \<Rightarrow> None | Some d \<Rightarrow> if d < radix then Some d else None)"

definition digitsValue :: "nat \<Rightarrow> string \<Rightarrow> nat" where
  "digitsValue radix ds = foldl (\<lambda>a c. radix * a + the (digitValue radix c)) 0 ds"

definition parseDigits :: "nat \<Rightarrow> string \<Rightarrow> bool \<Rightarrow> number" where
  "parseDigits radix s negative =
     (let ds = takeWhile (\<lambda>c. digitValue radix c \<noteq> None) s
      in if ds = [] then None
         else let v = int (digitsValue radix ds)
              in num (if negative then - v else v))"

definition parseUnsigned :: "string \<Rightarrow> bool \<Rightarrow> number" where
  "parseUnsigned s negative =
     (if take 2 s = ''0x'' \<or> take 2 s = ''0X'' then parseDigits 16 (drop 2 s) negative
      else parseDigits 10 s negative)"

definition parseInt :: "string \<Rightarrow> number" where
  "parseInt s =
     (case dropWhile isWhite s of
        [] \<Rightarrow> None
      | c # cs \<Rightarrow>
          if c = CHR ''-'' then parseUnsigned cs True
          else if c = CHR ''+'' then parseUnsigned cs False
          else parseUnsigned (c # cs) False)"

text \<open>
  The string of a number, as a template literal and \<open>toString()\<close> give it: \<open>NaN\<close>, or the
  decimal digits of an integer. The numbers printed by this program are integers; the digits
  are JavaScript's for integers below \<open>2 ^ 53\<close>. From there on JavaScript prints the shortest
  digits that read back as the same double, and exponent notation from \<open>10 ^ 21\<close> on, which
  the model does not do.
\<close>

definition numToString :: "number \<Rightarrow> string" where
  "numToString a =
     (case a of
        None \<Rightarrow> ''NaN''
      | Some q \<Rightarrow> (if q < 0 then ''-'' else []) @ toString (nat \<bar>\<lfloor>q\<rfloor>\<bar>))"

section \<open>useGameRoom: claimPrize\<close>

definition claimPrize :: "env \<Rightarrow> hook \<Rightarrow> int \<Rightarrow> bool \<times> hook" where
  "claimPrize e h roomId =
     (if \<not> gameRoom e
      then (False, h\<lparr>hookError := Some ''Game room contract not initialized''\<rparr>)
      else
        let h1 = h\<lparr>loading := True, hookError := None\<rparr>;
            h2 = await (h1\<lparr>claimCalls := claimCalls h1 @ [roomId]\<rparr>) in
        (case claimPrizeTx (chain e (tick h1)) roomId of
           None \<Rightarrow> (True, h2\<lparr>loading := False\<rparr>)
         | Some msg \<Rightarrow>
             (False, h2\<lparr>hookError := Some (orElse msg ''Failed to claim prize''),
                        loading := False\<rparr>)))"

section \<open>The games page: state\<close>

datatype noteType = NoteSuccess | NoteError | NoteInfo

record session =
  s_roomId :: "int option"
  s_entryFee :: string
  s_maxPlayers :: int
  s_gameType :: int
  s_currentPlayers :: int
  s_isCreator :: bool
  s_status :: int

record gameOutcome =
  g_success :: bool
  g_message :: string
  g_winnings :: "string option"

record roomCard =
  c_id :: int
  c_game :: string
  c_entry :: string
  c_players :: string
  c_time :: string
  c_type :: string

text \<open>
  A \<open>setInterval\<close> timer of the completion polling with what its callback closes over:
  the room id of the session, and the contract handle and the user of the render in which
  \<open>handleGameOver\<close> ran (through that render's \<open>getRoomDetails\<close> and
  \<open>checkGameResult\<close>).
\<close>

record watcher =
  w_timer :: nat
  w_roomId :: int
  w_gameRoom :: bool
  w_wallet :: "string option"

text \<open>
  The state of \<open>GamesPageClient\<close> that the functions below read or write, the hook's state,
  and the timers: \<open>intervals\<close> holds every \<open>setInterval\<close> timer that has not been cleared.
\<close>

record page =
  hk :: hook
  notification :: "(noteType \<times> string) option"
  isLoading :: bool
  gameSessionData :: "session option"
  gameScore :: "int option"
  gameResult :: "gameOutcome option"
  activeRooms :: "roomCard list"
  loadingRooms :: bool
  hasPlayedInRoom :: bool
  intervals :: "watcher list"
  nextTimer :: nat

definition intToString :: "int \<Rightarrow> string" where
  "intToString i = (if i < 0 then ''-'' else []) @ toString (nat \<bar>i\<bar>)"

section \<open>The games page: loadActiveRooms\<close>

definition formatTimeAgo :: "int \<Rightarrow> int \<Rightarrow> string" where
  "formatTimeAgo now timestamp =
     (let diff = jsSub (num now) (num timestamp)
      in if jsLess diff (num 60) then ''just now''
         else if jsLess diff (num 3600)
           then numToString (mathFloor (jsDiv diff (num 60))) @ '' min ago''
         else if jsLess diff (num 86400)
           then numToString (mathFloor (jsDiv diff (num 3600))) @ '' hours ago''
         else numToString (mathFloor (jsDiv diff (num 86400))) @ '' days ago'')"

text \<open>
  The \<open>filter\<close>, \<open>map\<close>, \<open>filter\<close> chain applied to one result of a batch: \<open>null\<close> results
  and rooms whose status is not 0 are dropped, and so is a room whose \<open>id\<close> is falsy.
\<close>

definition toCard :: "int \<Rightarrow> room option \<Rightarrow> roomCard option" where
  "toCard now res =
     (case res of
        None \<Rightarrow> None
      | Some r \<Rightarrow>
          if room_status r \<noteq> 0 then None
          else if room_id r = 0 then None
          else Some \<lparr>c_id = room_id r,
                     c_game = (if room_gameType r = 0 then ''FLAPPY BIRD'' else ''AI CHALLENGE''),
                     c_entry = room_entryFee r,
                     c_players = intToString (room_currentPlayers r) @ ''/''
                                   @ intToString (room_maxPlayers r),
                     c_time = formatTimeAgo now (room_creationTime r),
                     c_type = (if room_roomType r = 0 then ''PUBLIC'' else ''PRIVATE'')\<rparr>)"

text \<open>
  \<open>batch.map(id => getRoomDetails(id)...)\<close> under \<open>Promise.all\<close>: one read per id. The
  five reads of a batch are in flight together; the model answers them one after another, in
  the order of the ids, so of the hook's \<open>loading\<close> and \<open>error\<close> it gives the state that
  this order of answers leaves.
\<close>

fun readBatch :: "env \<Rightarrow> hook \<Rightarrow> int list \<Rightarrow> room option list \<times> hook" where
  "readBatch e h [] = ([], h)"
| "readBatch e h (i # is) =
     (case getRoomDetails e h i of
        (r, h1) \<Rightarrow> (case readBatch e h1 is of (rs, h2) \<Rightarrow> (r # rs, h2)))"

text \<open>The \<open>for\<close> loop over the batches of five ids.\<close>

function batchLoop ::
  "env \<Rightarrow> int list \<Rightarrow> nat \<Rightarrow> hook \<Rightarrow> roomCard list \<Rightarrow> roomCard list \<times> hook" where
  "batchLoop e roomIds i h fillingRooms =
     (if i < length roomIds then
        (case readBatch e h (take 5 (drop i roomIds)) of
           (batchResults, h1) \<Rightarrow>
             let validRooms = List.map_filter (toCard (nowSec e (tick h1))) batchResults
             in batchLoop e roomIds (i + 5) h1 (fillingRooms @ validRooms))
      else (fillingRooms, h))"
  by pat_completeness auto
termination
  by (relation "measure (\<lambda>(e, roomIds, i, h, fillingRooms). length roomIds - i)") auto

text \<open>
  \<open>Array.from(new Map(rooms.map(room => [room.id, room])).values())\<close>: a \<open>Map\<close> keeps the
  position of the first entry of a key and the value of the last one.
\<close>

definition uniqueById :: "roomCard list \<Rightarrow> roomCard list" where
  "uniqueById cards = map snd (fold (\<lambda>c m. AList.update (c_id c) c m) cards [])"

text \<open>The comparator handed to \<open>sort\<close>.\<close>

definition compareCards :: "roomCard \<Rightarrow> roomCard \<Rightarrow> number" where
  "compareCards a b =
     (let aTime = parseInt (c_time a); bTime = parseInt (c_time b)
      in if isNaN aTime \<or> isNaN bTime then num 0 else jsSub bTime aTime)"

text \<open>
  \<open>Array.prototype.sort\<close> is stable: of two elements it moves the later one in front only
  when the comparator is positive on (earlier, later). The model is the insertion sort with
  that rule; when the comparator is a consistent ordering, every stable sort gives this list
  (for an inconsistent comparator ECMAScript leaves the order to the implementation). The
  comparator above makes a card whose age does not start with a digit equal to every other
  card, so it is consistent only on lists without such a card; on the others the list of the
  model is one of the orders that an engine may give.
\<close>

fun insertBy :: "('a \<Rightarrow> 'a \<Rightarrow> number) \<Rightarrow> 'a \<Rightarrow> 'a list \<Rightarrow> 'a list" where
  "insertBy cmp x [] = [x]"
| "insertBy cmp x (y # ys) =
     (if jsLess (num 0) (cmp x y) then y # insertBy cmp x ys else x # y # ys)"

definition sortBy :: "('a \<Rightarrow> 'a \<Rightarrow> number) \<Rightarrow> 'a list \<Rightarrow> 'a list" where
  "sortBy cmp xs = foldr (insertBy cmp) xs []"

definition loadActiveRooms :: "env \<Rightarrow> page \<Rightarrow> page" where
  "loadActiveRooms e p =
     (let p1 = p\<lparr>loadingRooms := True\<rparr>;
          totalRooms = 50;
          roomIds = map int [1 ..< Suc totalRooms]
      in case batchLoop e roomIds 0 (hk p1) [] of
           (fillingRooms, h) \<Rightarrow>
             let uniqueRooms = sortBy compareCards (uniqueById fillingRooms)
             in p1\<lparr>hk := h, activeRooms := uniqueRooms, loadingRooms := False\<rparr>)"

section \<open>The games page: prize computation\<close>

text \<open>The lines of \<open>checkGameResult\<close> from \<open>prizePool\<close> to \<open>finalPrizeAmount\<close>.\<close>

definition checkGameResult_prize :: "room \<Rightarrow> number \<times> number \<times> number" where
  "checkGameResult_prize r =
     (let prizePool = parseInt (room_prizePool r);
          commissionRate = num 10;
          commissionAmount = mathFloor (jsDiv (jsMul prizePool commissionRate) (num 100));
          prizePoolAfterCommission = jsSub prizePool commissionAmount;
          finalPrizeAmount = prizePoolAfterCommission
      in (prizePool, commissionAmount, finalPrizeAmount))"

text \<open>The lines of \<open>handleClaimPrize\<close> from \<open>prizePool\<close> to \<open>expectedPrize\<close>.\<close>

definition handleClaimPrize_prize :: "room \<Rightarrow> number \<times> number \<times> number" where
  "handleClaimPrize_prize r =
     (let prizePool = parseInt (room_prizePool r);
          commissionRate = num 10;
          commissionAmount = mathFloor (jsDiv (jsMul prizePool commissionRate) (num 100));
          prizePoolAfterCommission = jsSub prizePool commissionAmount;
          expectedPrize = prizePoolAfterCommission
      in (prizePool, commissionAmount, expectedPrize))"

text \<open>
  The three amounts of the "Prize Breakdown" block that the page renders: total prize pool,
  platform commission and winner's prize, each guarded by
  \<open>gameSessionData?.entryFee && gameSessionData?.maxPlayers\<close>.
\<close>

definition breakdownGuard :: "session option \<Rightarrow> bool" where
  "breakdownGuard gsd =
     (case gsd of None \<Rightarrow> False | Some s \<Rightarrow> s_entryFee s \<noteq> [] \<and> s_maxPlayers s \<noteq> 0)"

definition breakdownPool :: "session option \<Rightarrow> number" where
  "breakdownPool gsd =
     (if breakdownGuard gsd
      then jsMul (parseInt (s_entryFee (the gsd))) (num (s_maxPlayers (the gsd)))
      else num 0)"

definition breakdownCommission :: "session option \<Rightarrow> number" where
  "breakdownCommission gsd =
     (if breakdownGuard gsd
      then mathFloor (jsMul (jsMul (parseInt (s_entryFee (the gsd))) (num (s_maxPlayers (the gsd))))
                            (literal (1 / 10)))
      else num 0)"

definition breakdownWinnerPrize :: "session option \<Rightarrow> number" where
  "breakdownWinnerPrize gsd =
     (if breakdownGuard gsd
      then mathFloor (jsMul (jsMul (parseInt (s_entryFee (the gsd))) (num (s_maxPlayers (the gsd))))
                            (literal (9 / 10)))
      else num 0)"

text \<open>The \<open>RoomDetails\<close> component, shown before the game: pool, commission, winner's prize.\<close>

definition roomDetails_prize :: "room \<Rightarrow> number \<times> number \<times> number" where
  "roomDetails_prize r =
     (let entryFee = parseInt (room_entryFee r);
          totalPrizePool = jsMul entryFee (num (room_maxPlayers r));
          commissionAmount = mathFloor (jsMul totalPrizePool (literal (1 / 10)));
          prizePoolAfterCommission = jsSub totalPrizePool commissionAmount;
          winnerPrize = prizePoolAfterCommission
      in (totalPrizePool, commissionAmount, winnerPrize))"

section \<open>The games page: checkGameResult\<close>



section \<open>The games page: handleGameOver and its completion polling\<close>










section \<open>The games page: handleClaimPrize\<close>

text \<open>\<open>refreshBalance\<close> belongs to the points hook and touches none of the state kept here.\<close>

definition handleClaimPrize :: "env \<Rightarrow> page \<Rightarrow> int \<Rightarrow> page" where
  "handleClaimPrize e p roomId =
     (if \<not> walletConnected e
      then p\<lparr>notification := Some (NoteError, ''Please connect your wallet to claim your prize'')\<rparr>
      else
        let p1 = p\<lparr>isLoading := True,
                    notification := Some (NoteInfo, ''Claiming your prize... Please wait'')\<rparr>
        in case getRoomDetails e (hk p1) roomId of
             (None, h1) \<Rightarrow>
               p1\<lparr>hk := h1, notification := Some (NoteError, ''Room not found''),
                  isLoading := False\<rparr>
           | (Some r, h1) \<Rightarrow>
               (case handleClaimPrize_prize r of
                  (prizePool, commissionAmount, expectedPrize) \<Rightarrow>
                    (case claimPrize e h1 roomId of
                       (False, h2) \<Rightarrow>
                         p1\<lparr>hk := h2,
                            notification :=
                              Some (NoteError, ''Failed to claim prize. Please try again.''),
                            isLoading := False\<rparr>
                     | (True, h2) \<Rightarrow>
                         let p2 = p1\<lparr>hk := h2,
                                     notification :=
                                       Some (NoteSuccess,
                                             ''Prize of '' @ numToString expectedPrize
                                               @ '' points claimed successfully!'')\<rparr>
                         in (case getRoomDetails e h2 roomId of
                               (None, h3) \<Rightarrow> p2\<lparr>hk := h3, isLoading := False\<rparr>
                             | (Some updatedRoom, h3) \<Rightarrow>
                                 p2\<lparr>hk := h3,
                                    gameResult :=
                                      Some \<lparr>g_success = True,
                                            g_message =
                                              ''You won this game and claimed your prize!'',
                                            g_winnings = Some (numToString expectedPrize)\<rparr>,
                                    isLoading := False\<rparr>))))"

text \<open>
  The session that \<open>loadRoomDetails\<close> stores for a room it has read
  (\<open>setGameSessionData({roomId: room.id, entryFee: room.entryFee, ...})\<close>).
\<close>

definition sessionOf :: "room \<Rightarrow> bool \<Rightarrow> session" where
  "sessionOf r isCreator =
     \<lparr>s_roomId = Some (room_id r),
      s_entryFee = room_entryFee r,
      s_maxPlayers = room_maxPlayers r,
      s_gameType = room_gameType r,
      s_currentPlayers = room_currentPlayers r,
      s_isCreator = isCreator,
      s_status = room_status r\<rparr>"

section \<open>Scenarios\<close>

text \<open>Concrete clients and ledgers on which the properties below are exercised.\<close>

definition hook0 :: hook where
  "hook0 = \<lparr>userRooms = [], loading = False, hookError = None, tick = 0, submitCalls = [],
            claimCalls = []\<rparr>"

definition alice :: string where "alice = ''0xA11CE''"
definition bob :: string where "bob = ''0xb0b''"
definition carol :: string where "carol = ''0xCA401''"
definition nobody :: string where "nobody = ''0x0000000000000000000000000000000000000000''"

text \<open>A ledger that cannot be reached: every read and every call throws.\<close>

definition downLedger :: ledger where
  "downLedger =
     \<lparr>rooms = (\<lambda>i. Inl ''network error''),
      getPlayers = (\<lambda>i. Inl ''network error''),
      getPlayerRooms = (\<lambda>a. Inl ''network error''),
      submitScoreTx = (\<lambda>i s. Some ''network error''),
      claimPrizeTx = (\<lambda>i. Some ''network error''),
      scoreSubmitted = (\<lambda>i a. False)\<rparr>"

definition clientOf :: "string \<Rightarrow> (nat \<Rightarrow> ledger) \<Rightarrow> env" where
  "clientOf a c = \<lparr>gameRoom = True, walletConnected = True, walletAddress = Some a,
                   chain = c, nowSec = (\<lambda>n. 1000)\<rparr>"

definition roomsLedger :: ledger where
  "roomsLedger = downLedger\<lparr>getPlayerRooms := (\<lambda>a. Inr [0, 3, 3, 5, 0, 3])\<rparr>"

text \<open>
  Room 1: entry fee 50, two seats, created by Alice. First only she has joined (Filling);
  then Bob has joined (Active); then Alice has submitted her score; at last Bob has
  submitted his and Alice has won (Completed).
\<close>

definition room1Filling :: rawRoom where
  "room1Filling =
     \<lparr>raw_id = 1, raw_creator = alice, raw_entryFee = 50, raw_maxPlayers = 2,
      raw_currentPlayers = 1, raw_gameType = 0, raw_status = 0, raw_roomType = 0,
      raw_creationTime = 700, raw_expirationTime = 4300, raw_prizePool = 50,
      raw_winner = nobody, raw_prizeClaimed = False\<rparr>"

definition room1Active :: rawRoom where
  "room1Active = room1Filling\<lparr>raw_currentPlayers := 2, raw_status := 1, raw_prizePool := 100\<rparr>"

definition room1Completed :: rawRoom where
  "room1Completed = room1Active\<lparr>raw_status := 2, raw_winner := ''0xa11ce''\<rparr>"

definition fillingLedger :: ledger where
  "fillingLedger =
     downLedger\<lparr>rooms := (\<lambda>i. if i = 1 then Inr room1Filling else Inl ''no such room''),
                getPlayers := (\<lambda>i. if i = 1 then Inr [alice] else Inl ''no such room''),
                submitScoreTx := (\<lambda>i s. Some ''execution reverted: room not active'')\<rparr>"

definition activeLedger :: ledger where
  "activeLedger =
     downLedger\<lparr>rooms := (\<lambda>i. if i = 1 then Inr room1Active else Inl ''no such room''),
                getPlayers := (\<lambda>i. if i = 1 then Inr [alice, bob] else Inl ''no such room''),
                submitScoreTx := (\<lambda>i s. None)\<rparr>"

definition aliceSubmittedLedger :: ledger where
  "aliceSubmittedLedger =
     activeLedger\<lparr>submitScoreTx := (\<lambda>i s. Some ''execution reverted: already submitted''),
                  scoreSubmitted := (\<lambda>i a. i = 1 \<and> a = alice)\<rparr>"

definition completedLedger :: ledger where
  "completedLedger =
     activeLedger\<lparr>rooms := (\<lambda>i. if i = 1 then Inr room1Completed else Inl ''no such room''),
                  submitScoreTx := (\<lambda>i s. Some ''execution reverted: room not active''),
                  claimPrizeTx := (\<lambda>i. None),
                  scoreSubmitted := (\<lambda>i a. i = 1 \<and> (a = alice \<or> a = bob))\<rparr>"

text \<open>The roster read of the active room fails.\<close>

definition rosterDownLedger :: ledger where
  "rosterDownLedger = activeLedger\<lparr>getPlayers := (\<lambda>i. Inl ''network error'')\<rparr>"

text \<open>The page of a player who has loaded room 1 while it was Active.\<close>

definition page1 :: page where
  "page1 =
     \<lparr>hk = hook0, notification = None, isLoading = False,
      gameSessionData =
        Some \<lparr>s_roomId = Some 1, s_entryFee = ''50'', s_maxPlayers = 2, s_gameType = 0,
              s_currentPlayers = 2, s_isCreator = True, s_status = 1\<rparr>,
      gameScore = None, gameResult = None, activeRooms = [], loadingRooms = False,
      hasPlayedInRoom = False, intervals = [], nextTimer = 0\<rparr>"

text \<open>
  Room 2: entry fee 50, three seats, all taken (Active); later all three players have
  submitted and Bob has won (Completed). The ledger accepts a score from each player.
\<close>

definition room2Active :: rawRoom where
  "room2Active =
     \<lparr>raw_id = 2, raw_creator = alice, raw_entryFee = 50, raw_maxPlayers = 3,
      raw_currentPlayers = 3, raw_gameType = 0, raw_status = 1, raw_roomType = 0,
      raw_creationTime = 400, raw_expirationTime = 4000, raw_prizePool = 150,
      raw_winner = nobody, raw_prizeClaimed = False\<rparr>"

definition room2Completed :: rawRoom where
  "room2Completed = room2Active\<lparr>raw_status := 2, raw_winner := ''0xB0B''\<rparr>"

definition threeActiveLedger :: ledger where
  "threeActiveLedger =
     downLedger\<lparr>rooms := (\<lambda>i. if i = 2 then Inr room2Active else Inl ''no such room''),
                getPlayers := (\<lambda>i. if i = 2 then Inr [alice, bob, carol]
                                    else Inl ''no such room''),
                submitScoreTx := (\<lambda>i s. None)\<rparr>"

definition threeCompletedLedger :: ledger where
  "threeCompletedLedger =
     threeActiveLedger\<lparr>rooms := (\<lambda>i. if i = 2 then Inr room2Completed
                                       else Inl ''no such room''),
                       submitScoreTx := (\<lambda>i s. Some ''execution reverted: room not active'')\<rparr>"

text \<open>The ledger stays Active during the first fourteen interactions, then is Completed.\<close>

definition room2Chain :: "nat \<Rightarrow> ledger" where
  "room2Chain n = (if n < 14 then threeActiveLedger else threeCompletedLedger)"





text \<open>
  The lobby at second 1000: room 1 is Filling and was created at second 700, room 2 is Filling
  and was created at second 400, room 3 is Active, and no other room can be read.
\<close>

definition room2Filling :: rawRoom where
  "room2Filling = room2Active\<lparr>raw_currentPlayers := 2, raw_status := 0, raw_prizePool := 100\<rparr>"

definition room3Active :: rawRoom where
  "room3Active = room1Active\<lparr>raw_id := 3\<rparr>"

definition lobbyLedger :: ledger where
  "lobbyLedger =
     downLedger\<lparr>rooms := (\<lambda>i. if i = 1 then Inr room1Filling
                               else if i = 2 then Inr room2Filling
                               else if i = 3 then Inr room3Active
                               else Inl ''no such room'')\<rparr>"

text \<open>
  A Completed room with the given entry fee and number of seats, all seats taken, as
  \<open>getRoomDetails\<close> returns it: its prize pool is entry fee times seats.
\<close>

definition fullRoom :: "nat \<Rightarrow> nat \<Rightarrow> room" where
  "fullRoom fee seats =
     \<lparr>room_id = 9, room_creator = alice, room_entryFee = toString fee,
      room_maxPlayers = int seats, room_currentPlayers = int seats, room_gameType = 0,
      room_status = 2, room_roomType = 0, room_creationTime = 400,
      room_expirationTime = 4000, room_prizePool = toString (fee * seats),
      room_winner = alice, room_prizeClaimed = False\<rparr>"

section \<open>Evaluation of the scenarios\<close>

lemmas scenario_defs =
  hook0_def clientOf_def downLedger_def roomsLedger_def room1Filling_def room1Active_def
  room1Completed_def fillingLedger_def activeLedger_def aliceSubmittedLedger_def
  completedLedger_def rosterDownLedger_def room2Active_def room2Completed_def
  threeActiveLedger_def threeCompletedLedger_def room2Chain_def room2Filling_def
  room3Active_def lobbyLedger_def

lemmas hook_defs =
  getRoomDetails_def getPlayersInRoom_def submitScore_def formatRoom_def formatPlayer_def
  toNumber_def await_def isPlayerIn_def hasSubmittedIn_def truthy_def rejected_def
  accepted_def Let_def List.map_filter_def

lemma lower_names:
  "toLowerCase alice = ''0xa11ce''" "toLowerCase bob = ''0xb0b''"
  "toLowerCase carol = ''0xca401''" "toLowerCase nobody = nobody"
  "toLowerCase ''0xa11ce'' = ''0xa11ce''" "toLowerCase ''0xB0B'' = ''0xb0b''"
  "alice \<noteq> []" "bob \<noteq> []" "carol \<noteq> []" "nobody \<noteq> []"
  by code_simp+

lemma decimal_strings:
  "toString 50 = ''50''" "toString 100 = ''100''" "toString 150 = ''150''"
  by code_simp+

lemma read_collapse:
  "fst (getRoomDetails e h i) \<noteq> None \<Longrightarrow>
   getRoomDetails e h i = (Some (the (fst (getRoomDetails e h i))), snd (getRoomDetails e h i))"
  by (cases "getRoomDetails e h i") auto


section \<open>The rooms of a user\<close>

lemma fold_setAdd_set: "set (fold setAdd xs s) = set xs \<union> set s"
  by (induction xs arbitrary: s) (auto simp: setAdd_def)

lemma fold_setAdd_distinct: "distinct s \<Longrightarrow> distinct (fold setAdd xs s)"
  by (induction xs arbitrary: s) (auto simp: setAdd_def)

lemma arrayFromSet_set: "set (arrayFromSet xs) = set xs"
  by (simp add: arrayFromSet_def fold_setAdd_set)

lemma arrayFromSet_distinct: "distinct (arrayFromSet xs)"
  by (simp add: arrayFromSet_def fold_setAdd_distinct)

text \<open>
  C10. Whatever the ledger returns for \<open>getPlayerRooms\<close> (zeros and duplicates included),
  the list that \<open>getUserRooms\<close> returns holds only strictly positive, pairwise distinct ids;
  and when the ledger read throws, the result is the empty list.
\<close>

theorem getUserRooms_positive_distinct:
  "(\<forall>i \<in> set (fst (getUserRooms e h address)). 0 < i)
   \<and> distinct (fst (getUserRooms e h address))
   \<and> (getPlayerRooms (chain e (tick h))
          (the (if truthy address then address else walletAddress e)) = Inl msg
      \<longrightarrow> fst (getUserRooms e h address) = [])"
  by (auto simp: getUserRooms_def Let_def arrayFromSet_set arrayFromSet_distinct
           split: sum.splits)

theorem getUserRooms_positive_distinct_witness:
  "fst (getUserRooms (clientOf alice (\<lambda>n. roomsLedger)) hook0 None) = [3, 5]
   \<and> distinct [3, 5 :: int]
   \<and> getPlayerRooms (chain (clientOf alice (\<lambda>n. downLedger)) (tick hook0)) bob
       = Inl ''network error''
   \<and> fst (getUserRooms (clientOf alice (\<lambda>n. downLedger)) hook0 (Some bob)) = []"
proof -
  have a: "fst (getUserRooms (clientOf alice (\<lambda>n. roomsLedger)) hook0 None) = [3, 5]"
    by (simp add: getUserRooms_def scenario_defs truthy_def lower_names toNumber_def
          arrayFromSet_def setAdd_def await_def Let_def)
  have b: "getPlayerRooms (chain (clientOf alice (\<lambda>n. downLedger)) (tick hook0)) bob
             = Inl ''network error''"
    by (simp add: scenario_defs)
  have c: "truthy (Some bob)"
    by (simp add: truthy_def lower_names)
  show ?thesis
    using getUserRooms_positive_distinct [of "clientOf alice (\<lambda>n. roomsLedger)" hook0 None]
      getUserRooms_positive_distinct
        [of "clientOf alice (\<lambda>n. downLedger)" hook0 "Some bob" "''network error''"]
      a b c
    by simp
qed

section \<open>The ledger writes of the hook\<close>

lemma getRoomDetails_submitCalls:
  "getRoomDetails e h i = (res, h') \<Longrightarrow> submitCalls h' = submitCalls h"
  by (auto simp: getRoomDetails_def await_def Let_def split: sum.splits if_splits)

lemma getPlayersInRoom_submitCalls:
  "getPlayersInRoom e h i = (ps, h') \<Longrightarrow> submitCalls h' = submitCalls h"
  by (auto simp: getPlayersInRoom_def await_def Let_def
           split: sum.splits prod.splits option.splits if_splits
           dest!: getRoomDetails_submitCalls)

section \<open>The score submission gate\<close>

text \<open>
  C2, as the code has it. When the room that \<open>submitScore\<close> reads is not Active, or the
  wallet address is not on the roster it resolves, or that roster marks the address as having
  submitted, the submission is rejected with the flag of the first failing check in the order
  status, membership, prior submission, and no \<open>submitScore\<close> call is issued to the ledger.
  The third check reads the roster's \<open>hasSubmittedScore\<close>, not what the ledger knows of the
  address.
\<close>

theorem submitScore_gate:
  assumes "gameRoom e"
    and "getRoomDetails e (h\<lparr>loading := True, hookError := None\<rparr>) roomId = (Some r, h2)"
    and "getPlayersInRoom e h2 roomId = (players, h3)"
    and "ua = map_option toLowerCase (walletAddress e)"
    and "room_status r \<noteq> 1 \<or> \<not> isPlayerIn ua players \<or> hasSubmittedIn ua players"
    and "submitScore e h roomId points = (res, h')"
  shows "submitCalls h' = submitCalls h \<and> \<not> success res
     \<and> (statusError res, notPlayerError res, alreadySubmittedError res) =
         (if room_status r \<noteq> 1 then (True, False, False)
          else if \<not> isPlayerIn ua players then (False, True, False)
          else (False, False, True))"
proof -
  have c2: "submitCalls h2 = submitCalls h"
    using getRoomDetails_submitCalls [OF assms(2)] by simp
  have c3: "submitCalls h3 = submitCalls h2"
    using getPlayersInRoom_submitCalls [OF assms(3)] .
  show ?thesis
    using assms c2 c3
    by (auto simp: submitScore_def rejected_def Let_def)
qed

theorem submitScore_gate_witness:
  "fst (submitScore (clientOf alice (\<lambda>n. fillingLedger)) hook0 1 42)
     = (rejected ''Room must be in Active status to submit scores. Current status: Filling'')
         \<lparr>statusError := True\<rparr>
   \<and> submitCalls (snd (submitScore (clientOf alice (\<lambda>n. fillingLedger)) hook0 1 42)) = []
   \<and> fst (submitScore (clientOf carol (\<lambda>n. activeLedger)) hook0 1 42)
     = (rejected ''You are not a player in this room'')\<lparr>notPlayerError := True\<rparr>
   \<and> submitCalls (snd (submitScore (clientOf carol (\<lambda>n. activeLedger)) hook0 1 42)) = []
   \<and> fst (submitScore
            (clientOf alice (\<lambda>n. if n < 2 then aliceSubmittedLedger else completedLedger))
            hook0 1 42)
     = (rejected ''You have already submitted a score for this room'')
         \<lparr>alreadySubmittedError := True\<rparr>
   \<and> submitCalls (snd (submitScore
            (clientOf alice (\<lambda>n. if n < 2 then aliceSubmittedLedger else completedLedger))
            hook0 1 42)) = []"
proof -
  let ?h = "hook0\<lparr>loading := True, hookError := None\<rparr>"
  let ?e1 = "clientOf alice (\<lambda>n. fillingLedger)"
  let ?e2 = "clientOf carol (\<lambda>n. activeLedger)"
  let ?e3 = "clientOf alice (\<lambda>n. if n < 2 then aliceSubmittedLedger else completedLedger)"
  have s1: "room_status (the (fst (getRoomDetails ?e1 ?h 1))) \<noteq> 1"
    and r1: "fst (getRoomDetails ?e1 ?h 1) \<noteq> None"
    by (simp_all add: scenario_defs hook_defs decimal_strings)
  have s2: "\<not> isPlayerIn (map_option toLowerCase (walletAddress ?e2))
                 (fst (getPlayersInRoom ?e2 (snd (getRoomDetails ?e2 ?h 1)) 1))"
    and r2: "fst (getRoomDetails ?e2 ?h 1) \<noteq> None"
    by (simp_all add: scenario_defs hook_defs decimal_strings lower_names)
  have s3: "hasSubmittedIn (map_option toLowerCase (walletAddress ?e3))
                 (fst (getPlayersInRoom ?e3 (snd (getRoomDetails ?e3 ?h 1)) 1))"
    and r3: "fst (getRoomDetails ?e3 ?h 1) \<noteq> None"
    by (simp_all add: scenario_defs hook_defs decimal_strings lower_names)
  have g: "gameRoom ?e1" "gameRoom ?e2" "gameRoom ?e3"
    by (simp_all add: clientOf_def)
  have v1: "fst (submitScore ?e1 hook0 1 42)
     = (rejected ''Room must be in Active status to submit scores. Current status: Filling'')
         \<lparr>statusError := True\<rparr>"
    by (simp add: scenario_defs hook_defs decimal_strings statusText_def)
  have v2: "fst (submitScore ?e2 hook0 1 42)
     = (rejected ''You are not a player in this room'')\<lparr>notPlayerError := True\<rparr>"
    by (simp add: scenario_defs hook_defs decimal_strings lower_names)
  have v3: "fst (submitScore ?e3 hook0 1 42)
     = (rejected ''You have already submitted a score for this room'')
         \<lparr>alreadySubmittedError := True\<rparr>"
    by (simp add: scenario_defs hook_defs decimal_strings lower_names)
  have c0: "submitCalls hook0 = []"
    by (simp add: hook0_def)
  note w1 = submitScore_gate [OF g(1) read_collapse [OF r1] prod.collapse [symmetric] refl
      disjI1 [OF s1] prod.collapse [symmetric]]
  note w2 = submitScore_gate [OF g(2) read_collapse [OF r2] prod.collapse [symmetric] refl
      disjI2 [OF disjI1 [OF s2]] prod.collapse [symmetric]]
  note w3 = submitScore_gate [OF g(3) read_collapse [OF r3] prod.collapse [symmetric] refl
      disjI2 [OF disjI2 [OF s3]] prod.collapse [symmetric]]
  show ?thesis
    using w1 [of 42] w2 [of 42] w3 [of 42] v1 v2 v3 c0 by simp
qed

text \<open>
  C2, as claimed, fails: Alice has already submitted a score for the Active room 1, the
  roster does not mark her, and \<open>submitScore\<close> issues the write; the rejection it returns
  is the ledger's revert, without the flag of a prior submission.
\<close>

theorem submitScore_gate_counterexample:
  "scoreSubmitted aliceSubmittedLedger 1 alice
   \<and> submitCalls (snd (submitScore (clientOf alice (\<lambda>n. aliceSubmittedLedger)) hook0 1 42))
       = [(1, 42)]
   \<and> fst (submitScore (clientOf alice (\<lambda>n. aliceSubmittedLedger)) hook0 1 42)
       = rejected ''You have already submitted a score for this room''"
proof -
  have m: "submitErrorMessage ''execution reverted: already submitted''
             = ''You have already submitted a score for this room''"
    by code_simp
  show ?thesis
    by (simp add: scenario_defs hook_defs decimal_strings lower_names m)
qed

text \<open>When all three checks pass, the write is issued: the gate is not closed for everyone.\<close>

lemma submitScore_issues_write:
  assumes "gameRoom e"
    and "getRoomDetails e (h\<lparr>loading := True, hookError := None\<rparr>) roomId = (Some r, h2)"
    and "getPlayersInRoom e h2 roomId = (players, h3)"
    and "ua = map_option toLowerCase (walletAddress e)"
    and "room_status r = 1" "isPlayerIn ua players" "\<not> hasSubmittedIn ua players"
    and "submitScore e h roomId points = (res, h')"
  shows "submitCalls h' = submitCalls h @ [(roomId, points)]"
proof -
  have c2: "submitCalls h2 = submitCalls h"
    using getRoomDetails_submitCalls [OF assms(2)] by simp
  have c3: "submitCalls h3 = submitCalls h2"
    using getPlayersInRoom_submitCalls [OF assms(3)] .
  show ?thesis
    using assms c2 c3
    by (auto simp: submitScore_def rejected_def Let_def await_def split: option.splits)
qed

text \<open>
  On a ledger that does not change while \<open>submitScore\<close> runs, the check of a prior
  submission never rejects: the roster resolved for a room that is read as Active marks
  nobody as having submitted, so a repeated submission is stopped by the ledger, not by the
  gate.
\<close>

lemma getRoomDetails_stable:
  assumes "\<forall>n. chain e n = L"
    and "getRoomDetails e h roomId = (Some r, h')" and "getRoomDetails e k roomId = (Some r', k')"
  shows "r' = r"
  using assms by (auto simp: getRoomDetails_def Let_def split: if_splits sum.splits)

lemma getPlayersInRoom_of_active:
  assumes "\<forall>n. chain e n = L"
    and "getRoomDetails e h roomId = (Some r, h')" and "room_status r = 1"
    and "pl \<in> set (fst (getPlayersInRoom e k roomId))"
  shows "\<not> hasSubmittedScore pl"
proof -
  from assms(4) obtain r' k' a where
    "getRoomDetails e (await (k\<lparr>loading := True, hookError := None\<rparr>)) roomId = (Some r', k')"
    and "formatPlayer r' a = Some pl"
    by (auto simp: getPlayersInRoom_def Let_def List.map_filter_def
             split: if_splits sum.splits prod.splits option.splits)
  moreover from this(1) have "r' = r"
    using getRoomDetails_stable [OF assms(1,2)] by blast
  ultimately show ?thesis
    using assms(3) by (auto simp: formatPlayer_def split: if_splits)
qed

lemma stable_ledger_never_already_submitted:
  assumes "\<forall>n. chain e n = L" and "submitScore e h roomId points = (res, h')"
  shows "\<not> alreadySubmittedError res"
proof
  assume flag: "alreadySubmittedError res"
  with assms(2) obtain r h2 where
    r: "getRoomDetails e (h\<lparr>loading := True, hookError := None\<rparr>) roomId = (Some r, h2)"
      "room_status r = 1"
    and s: "hasSubmittedIn (map_option toLowerCase (walletAddress e))
              (fst (getPlayersInRoom e h2 roomId))"
    by (auto simp: submitScore_def rejected_def accepted_def Let_def
             split: if_splits prod.splits option.splits)
  from s obtain pl where "pl \<in> set (fst (getPlayersInRoom e h2 roomId))" "hasSubmittedScore pl"
    by (auto simp: hasSubmittedIn_def list_ex_iff)
  then show False
    using getPlayersInRoom_of_active [OF assms(1) r] by blast
qed

lemma statusText_cases:
  "statusText s = ''Filling'' \<and> s = 0 \<or> statusText s = ''Completed'' \<and> s \<noteq> 0
   \<or> statusText s = ''Expired'' \<and> s \<noteq> 0 \<or> statusText s = ''Canceled'' \<and> s \<noteq> 0
   \<or> statusText s = ''unknown'' \<and> s \<noteq> 0"
  by (simp add: statusText_def)

lemma mentions_Filling:
  "includesStr (''Room must be in Active status to submit scores. Current status: '' @ statusText s)
     ''Filling'' \<longleftrightarrow> s = 0"
proof -
  have 1: "includesStr (''Room must be in Active status to submit scores. Current status: '' @ ''Filling'') ''Filling''"
    by code_simp
  have 2: "\<not> includesStr (''Room must be in Active status to submit scores. Current status: '' @ ''Completed'') ''Filling''"
    by code_simp
  have 3: "\<not> includesStr (''Room must be in Active status to submit scores. Current status: '' @ ''Expired'') ''Filling''"
    by code_simp
  have 4: "\<not> includesStr (''Room must be in Active status to submit scores. Current status: '' @ ''Canceled'') ''Filling''"
    by code_simp
  have 5: "\<not> includesStr (''Room must be in Active status to submit scores. Current status: '' @ ''unknown'') ''Filling''"
    by code_simp
  show ?thesis
    using statusText_cases [of s] 1 2 3 4 5 by metis
qed

text \<open>
  C9. A submission to a room that is not Active is rejected with a status error whose message
  names the current status; the message mentions "Filling" exactly when the status is
  Filling. The room of the witness has two seats and one player.
\<close>

theorem submitScore_status_message:
  assumes "gameRoom e"
    and "getRoomDetails e (h\<lparr>loading := True, hookError := None\<rparr>) roomId = (Some r, h2)"
    and "room_status r \<noteq> 1"
    and "submitScore e h roomId points = (res, h')"
  shows "statusError res \<and> \<not> success res
     \<and> error res = Some (''Room must be in Active status to submit scores. Current status: ''
                           @ statusText (room_status r))
     \<and> (includesStr (the (error res)) ''Filling'' \<longleftrightarrow> room_status r = 0)"
  using assms mentions_Filling [of "room_status r"]
  by (auto simp: submitScore_def rejected_def Let_def)

theorem submitScore_status_message_witness:
  "room_status (the (fst (getRoomDetails (clientOf alice (\<lambda>n. fillingLedger))
                            (hook0\<lparr>loading := True, hookError := None\<rparr>) 1))) = 0
   \<and> room_maxPlayers (the (fst (getRoomDetails (clientOf alice (\<lambda>n. fillingLedger))
                            (hook0\<lparr>loading := True, hookError := None\<rparr>) 1))) = 2
   \<and> room_currentPlayers (the (fst (getRoomDetails (clientOf alice (\<lambda>n. fillingLedger))
                            (hook0\<lparr>loading := True, hookError := None\<rparr>) 1))) = 1
   \<and> statusError (fst (submitScore (clientOf alice (\<lambda>n. fillingLedger)) hook0 1 42))
   \<and> error (fst (submitScore (clientOf alice (\<lambda>n. fillingLedger)) hook0 1 42))
       = Some ''Room must be in Active status to submit scores. Current status: Filling''
   \<and> includesStr (the (error (fst (submitScore (clientOf alice (\<lambda>n. fillingLedger)) hook0 1 42))))
        ''Filling''"
proof -
  let ?h = "hook0\<lparr>loading := True, hookError := None\<rparr>"
  let ?e1 = "clientOf alice (\<lambda>n. fillingLedger)"
  have s1: "room_status (the (fst (getRoomDetails ?e1 ?h 1))) = 0"
    "room_maxPlayers (the (fst (getRoomDetails ?e1 ?h 1))) = 2"
    "room_currentPlayers (the (fst (getRoomDetails ?e1 ?h 1))) = 1"
    and r1: "fst (getRoomDetails ?e1 ?h 1) \<noteq> None"
    by (simp_all add: scenario_defs hook_defs decimal_strings)
  have n1: "room_status (the (fst (getRoomDetails ?e1 ?h 1))) \<noteq> 1"
    using s1 by simp
  have g: "gameRoom ?e1"
    by (simp add: clientOf_def)
  show ?thesis
    using submitScore_status_message [OF g read_collapse [OF r1] n1 prod.collapse [symmetric], of 42]
      s1
    by (simp add: statusText_def)
qed

section \<open>The local "played" flag after a rejection\<close>




section \<open>A roster read that fails\<close>

text \<open>
  C8, as the code has it. When the roster read throws, \<open>getPlayersInRoom\<close> returns the
  empty list; and \<open>submitScore\<close> on an Active room whose resolved roster is empty rejects
  the submitter as not a player, without a ledger write.
\<close>

theorem empty_roster_rejects_as_not_player:
  "(getPlayers (chain e (tick h)) roomId = Inl msg \<longrightarrow> fst (getPlayersInRoom e h roomId) = [])
   \<and> (gameRoom e
        \<and> getRoomDetails e (h\<lparr>loading := True, hookError := None\<rparr>) roomId = (Some r, h2)
        \<and> room_status r = 1
        \<and> fst (getPlayersInRoom e h2 roomId) = []
      \<longrightarrow> notPlayerError (fst (submitScore e h roomId points))
          \<and> \<not> success (fst (submitScore e h roomId points))
          \<and> submitCalls (snd (submitScore e h roomId points)) = submitCalls h)"
proof (intro conjI impI)
  assume "getPlayers (chain e (tick h)) roomId = Inl msg"
  then show "fst (getPlayersInRoom e h roomId) = []"
    by (simp add: getPlayersInRoom_def Let_def)
next
  assume a: "gameRoom e
        \<and> getRoomDetails e (h\<lparr>loading := True, hookError := None\<rparr>) roomId = (Some r, h2)
        \<and> room_status r = 1
        \<and> fst (getPlayersInRoom e h2 roomId) = []"
  obtain ps h3 where ps: "getPlayersInRoom e h2 roomId = (ps, h3)"
    by (cases "getPlayersInRoom e h2 roomId")
  with a have e: "ps = []"
    by simp
  have c: "submitCalls h3 = submitCalls h"
    using getPlayersInRoom_submitCalls [OF ps] a getRoomDetails_submitCalls by fastforce
  from a ps e c
  show "notPlayerError (fst (submitScore e h roomId points))"
    "\<not> success (fst (submitScore e h roomId points))"
    "submitCalls (snd (submitScore e h roomId points)) = submitCalls h"
    by (simp_all add: submitScore_def isPlayerIn_def rejected_def)
qed

theorem empty_roster_rejects_as_not_player_witness:
  "fst (getPlayersInRoom (clientOf alice (\<lambda>n. rosterDownLedger)) hook0 1) = []
   \<and> notPlayerError (fst (submitScore (clientOf alice (\<lambda>n. rosterDownLedger)) hook0 1 42))
   \<and> \<not> success (fst (submitScore (clientOf alice (\<lambda>n. rosterDownLedger)) hook0 1 42))
   \<and> submitCalls (snd (submitScore (clientOf alice (\<lambda>n. rosterDownLedger)) hook0 1 42)) = []"
proof -
  let ?e = "clientOf alice (\<lambda>n. rosterDownLedger)"
  let ?h = "hook0\<lparr>loading := True, hookError := None\<rparr>"
  have a: "getPlayers (chain ?e (tick hook0)) 1 = Inl ''network error''"
    by (simp add: scenario_defs)
  have r: "fst (getRoomDetails ?e ?h 1) \<noteq> None"
    and s: "room_status (the (fst (getRoomDetails ?e ?h 1))) = 1"
    and q: "fst (getPlayersInRoom ?e (snd (getRoomDetails ?e ?h 1)) 1) = []"
    by (simp_all add: scenario_defs hook_defs decimal_strings)
  have g: "gameRoom ?e"
    by (simp add: clientOf_def)
  have c0: "submitCalls hook0 = []"
    by (simp add: hook0_def)
  show ?thesis
    using empty_roster_rejects_as_not_player
      [of ?e hook0 1 "''network error''" "the (fst (getRoomDetails ?e ?h 1))"
          "snd (getRoomDetails ?e ?h 1)" 42]
      a read_collapse [OF r] s q g c0
    by simp
qed

text \<open>
  C8, as claimed, fails: Alice is on the roster of the Active room 1 (two players); when the
  roster read fails, the resolver returns the empty list and the gate rejects her as not a
  player, while the same submission is accepted when the roster can be read.
\<close>

theorem empty_roster_counterexample:
  "getPlayers (chain (clientOf alice (\<lambda>n. rosterDownLedger)) 1) 1 = Inl ''network error''
   \<and> fst (getPlayersInRoom (clientOf alice (\<lambda>n. rosterDownLedger))
            (snd (getRoomDetails (clientOf alice (\<lambda>n. rosterDownLedger))
                    (hook0\<lparr>loading := True, hookError := None\<rparr>) 1)) 1) = []
   \<and> room_currentPlayers
        (the (fst (getRoomDetails (clientOf alice (\<lambda>n. rosterDownLedger))
                     (hook0\<lparr>loading := True, hookError := None\<rparr>) 1))) = 2
   \<and> fst (submitScore (clientOf alice (\<lambda>n. rosterDownLedger)) hook0 1 42)
       = (rejected ''You are not a player in this room'')\<lparr>notPlayerError := True\<rparr>
   \<and> fst (submitScore (clientOf alice (\<lambda>n. activeLedger)) hook0 1 42) = accepted"
  by (simp add: scenario_defs hook_defs decimal_strings lower_names)

section \<open>The roster resolver\<close>

lemma formatPlayer_flag:
  "formatPlayer r a = Some pl \<Longrightarrow>
   playerAddress pl = a
   \<and> (hasSubmittedScore pl \<longleftrightarrow>
        room_status r = 2 \<and> room_winner r \<noteq> [] \<and> toLowerCase (room_winner r) = toLowerCase a)"
  by (auto simp: formatPlayer_def split: if_splits)

text \<open>
  C3, as the code has it. For every entry of the roster that \<open>getPlayersInRoom\<close> returns,
  \<open>hasSubmittedScore\<close> is true exactly when the room that the resolver has read is
  Completed and its winner is that player (addresses compared in lower case).
\<close>

theorem hasSubmittedScore_is_completed_winner:
  assumes "getRoomDetails e (await (h\<lparr>loading := True, hookError := None\<rparr>)) roomId = (Some r, h3)"
    and "pl \<in> set (fst (getPlayersInRoom e h roomId))"
  shows "hasSubmittedScore pl \<longleftrightarrow>
     room_status r = 2 \<and> room_winner r \<noteq> []
     \<and> toLowerCase (room_winner r) = toLowerCase (playerAddress pl)"
proof -
  from assms obtain a where "formatPlayer r a = Some pl"
    by (auto simp: getPlayersInRoom_def Let_def List.map_filter_def
             split: if_splits sum.splits)
  then show ?thesis
    using formatPlayer_flag by blast
qed

theorem hasSubmittedScore_is_completed_winner_witness:
  "fst (getPlayersInRoom (clientOf bob (\<lambda>n. completedLedger)) hook0 1)
     = [\<lparr>playerAddress = alice, playerScore = 0, hasSubmittedScore = True, playerTimestamp = 0\<rparr>,
        \<lparr>playerAddress = bob, playerScore = 0, hasSubmittedScore = False, playerTimestamp = 0\<rparr>]
   \<and> room_status (the (fst (getRoomDetails (clientOf bob (\<lambda>n. completedLedger))
                      (await (hook0\<lparr>loading := True, hookError := None\<rparr>)) 1))) = 2
   \<and> toLowerCase (room_winner (the (fst (getRoomDetails (clientOf bob (\<lambda>n. completedLedger))
                      (await (hook0\<lparr>loading := True, hookError := None\<rparr>)) 1))))
       = toLowerCase alice
   \<and> toLowerCase (room_winner (the (fst (getRoomDetails (clientOf bob (\<lambda>n. completedLedger))
                      (await (hook0\<lparr>loading := True, hookError := None\<rparr>)) 1))))
       \<noteq> toLowerCase bob"
proof -
  let ?e = "clientOf bob (\<lambda>n. completedLedger)"
  let ?h = "await (hook0\<lparr>loading := True, hookError := None\<rparr>)"
  let ?a = "\<lparr>playerAddress = alice, playerScore = 0, hasSubmittedScore = True,
            playerTimestamp = 0\<rparr>"
  let ?b = "\<lparr>playerAddress = bob, playerScore = 0, hasSubmittedScore = False,
            playerTimestamp = 0\<rparr>"
  have v: "fst (getPlayersInRoom ?e hook0 1) = [?a, ?b]"
    by (simp add: scenario_defs hook_defs decimal_strings lower_names)
  have r: "fst (getRoomDetails ?e ?h 1) \<noteq> None"
    and s: "room_status (the (fst (getRoomDetails ?e ?h 1))) = 2"
      "room_winner (the (fst (getRoomDetails ?e ?h 1))) = ''0xa11ce''"
    by (simp_all add: scenario_defs hook_defs decimal_strings)
  have ma: "?a \<in> set (fst (getPlayersInRoom ?e hook0 1))"
    and mb: "?b \<in> set (fst (getPlayersInRoom ?e hook0 1))"
    using v by simp_all
  show ?thesis
    using hasSubmittedScore_is_completed_winner [OF read_collapse [OF r] ma]
      hasSubmittedScore_is_completed_winner [OF read_collapse [OF r] mb] v s
    by (simp add: lower_names)
qed

text \<open>
  C3, as claimed, fails: on the ledger Alice has submitted her score for the Active room 1,
  and her roster entry says she has not.
\<close>

theorem hasSubmittedScore_counterexample:
  "scoreSubmitted (chain (clientOf bob (\<lambda>n. aliceSubmittedLedger)) 0) 1 alice
   \<and> fst (getPlayersInRoom (clientOf bob (\<lambda>n. aliceSubmittedLedger)) hook0 1)
     = [\<lparr>playerAddress = alice, playerScore = 0, hasSubmittedScore = False, playerTimestamp = 0\<rparr>,
        \<lparr>playerAddress = bob, playerScore = 0, hasSubmittedScore = False, playerTimestamp = 0\<rparr>]"
  by (simp add: scenario_defs hook_defs decimal_strings lower_names)

section \<open>Completion polling\<close>











section \<open>The list of Filling rooms\<close>

text \<open>What holds of every list that \<open>loadActiveRooms\<close> stores: a card is made only from a room
  that was read with status Filling, and no two cards have the same id.\<close>

lemma toCard_Filling:
  "toCard now res = Some c \<Longrightarrow> \<exists>r. res = Some r \<and> room_status r = 0 \<and> c_id c = room_id r"
  by (auto simp: toCard_def split: option.splits if_splits)

lemma fold_update_distinct:
  "distinct (map fst m) \<Longrightarrow>
   distinct (map fst (fold (\<lambda>c m. AList.update (c_id c) c m) cards m))"
  by (induction cards arbitrary: m) (simp_all add: distinct_update)

lemma update_keyed:
  "\<forall>x \<in> set m. fst x = c_id (snd x) \<Longrightarrow>
   \<forall>x \<in> set (AList.update (c_id c) c m). fst x = c_id (snd x)"
  by (induction m) auto

lemma fold_update_keyed:
  "\<forall>x \<in> set m. fst x = c_id (snd x) \<Longrightarrow>
   \<forall>x \<in> set (fold (\<lambda>c m. AList.update (c_id c) c m) cards m). fst x = c_id (snd x)"
proof (induction cards arbitrary: m)
  case Nil
  then show ?case by simp
next
  case (Cons c cards)
  show ?case
    using Cons.IH [OF update_keyed [OF Cons.prems]] by simp
qed

lemma uniqueById_distinct: "distinct (map c_id (uniqueById cards))"
proof -
  let ?m = "fold (\<lambda>c m. AList.update (c_id c) c m) cards []"
  have "\<forall>x \<in> set ?m. fst x = c_id (snd x)"
    by (rule fold_update_keyed) simp
  then have "map c_id (uniqueById cards) = map fst ?m"
    by (simp add: uniqueById_def)
  then show ?thesis
    using fold_update_distinct [of "[]" cards] by simp
qed

lemma set_insertBy: "set (insertBy cmp x ys) = insert x (set ys)"
  by (induction ys) auto

lemma set_sortBy: "set (sortBy cmp xs) = set xs"
  by (induction xs) (simp_all add: sortBy_def set_insertBy)

lemma distinct_insertBy:
  "distinct (map f (insertBy cmp x ys)) \<longleftrightarrow> f x \<notin> f ` set ys \<and> distinct (map f ys)"
  by (induction ys) (auto simp: set_insertBy)

lemma distinct_sortBy: "distinct (map f (sortBy cmp xs)) \<longleftrightarrow> distinct (map f xs)"
  by (induction xs) (simp_all add: sortBy_def distinct_insertBy set_sortBy [unfolded sortBy_def])

lemma loadActiveRooms_distinct_ids:
  "distinct (map c_id (activeRooms (loadActiveRooms e p)))"
  by (simp add: loadActiveRooms_def Let_def distinct_sortBy uniqueById_distinct
           split: prod.splits)

lemma time_strings:
  "formatTimeAgo 1000 700 = ''5 min ago''" "formatTimeAgo 1000 400 = ''10 min ago''"
  "parseInt ''5 min ago'' = Some 5" "parseInt ''10 min ago'' = Some 10"
  "jsSub (Some 10) (Some 5) = Some 5" "jsLess (num 0) (Some 5)"
  "intToString 1 = ''1''" "intToString 2 = ''2''" "intToString 3 = ''3''"
  by code_simp+

text \<open>
  C7. The list is not sorted by descending creation time: the comparator reads the leading
  number of the "time ago" text, so of two Filling rooms created 5 and 10 minutes ago the
  older one (room 2, created at second 400) comes before the newer one (room 1, created at
  second 700).
\<close>

theorem loadActiveRooms_oldest_first:
  "map (\<lambda>c. (c_id c, c_time c))
     (activeRooms (loadActiveRooms (clientOf alice (\<lambda>n. lobbyLedger)) page1))
     = [(2, ''10 min ago''), (1, ''5 min ago'')]
   \<and> raw_creationTime room2Filling = 400 \<and> raw_creationTime room1Filling = 700"
  unfolding loadActiveRooms_def Let_def
  by (simp add: upt_conv_Cons batchLoop.simps toCard_def uniqueById_def
        sortBy_def compareCards_def isNaN_def page1_def scenario_defs hook_defs
        decimal_strings time_strings)

section \<open>Rounding of doubles\<close>

text \<open>
  What the prize computations need of \<open>fl\<close>: it leaves integers below \<open>2 ^ 53\<close> alone,
  it does not round below an integer that the exact value reaches, and its error is at most
  half a unit in the last place.
\<close>

lemma roundHalfEven_of_int: "roundHalfEven (of_int n) = n"
  by (simp add: roundHalfEven_def)

lemma roundHalfEven_ge_floor: "\<lfloor>q\<rfloor> \<le> roundHalfEven q"
  by (simp add: roundHalfEven_def Let_def)

lemma roundHalfEven_near: "\<bar>of_int (roundHalfEven q) - q\<bar> \<le> 1 / 2"
proof -
  have "of_int \<lfloor>q\<rfloor> \<le> q" "q < of_int \<lfloor>q\<rfloor> + 1"
    by linarith+
  then show ?thesis
    by (auto simp: roundHalfEven_def Let_def abs_le_iff)
qed

lemma binade_le:
  assumes "0 < q" and "q < 2 ^ n" and "0 < n"
  shows "binade q \<le> int n - 1"
proof (cases "1 \<le> q")
  case True
  then have pos: "0 < \<lfloor>q\<rfloor>"
    by linarith
  have "of_int \<lfloor>q\<rfloor> \<le> q"
    by linarith
  with assms(2) have "(of_int \<lfloor>q\<rfloor> :: rat) < 2 ^ n"
    by linarith
  then have "\<lfloor>q\<rfloor> < 2 ^ n"
    by (metis of_int_less_iff of_int_numeral of_int_power)
  then have "bitlen \<lfloor>q\<rfloor> \<le> int n"
    using pos by (simp add: bitlen_le_iff_power)
  with True show ?thesis
    by (simp add: binade_def)
next
  case False
  then show ?thesis
    using assms(3) bitlen_nonneg [of "\<lceil>1 / q\<rceil> - 1"] by (simp add: binade_def)
qed

lemma fl_pos:
  "0 < q \<Longrightarrow>
   fl q = of_int (roundHalfEven (q / 2 powi (binade q - 52))) * 2 powi (binade q - 52)"
  by (simp add: fl_def Let_def)

lemma powi_nonpos: "k \<le> 0 \<Longrightarrow> (2::rat) powi k = 1 / 2 ^ nat (- k)"
  by (simp add: power_int_def inverse_eq_divide power_one_over)

text \<open>Integers below \<open>2 ^ 53\<close> are doubles.\<close>

lemma fl_of_int:
  assumes "0 \<le> n" and "n < 2 ^ 53"
  shows "fl (of_int n) = of_int n"
proof (cases "n = 0")
  case True
  then show ?thesis
    by (simp add: fl_def)
next
  case False
  with assms have pos: "(0::rat) < of_int n"
    by simp
  have "(of_int n :: rat) < 2 ^ 53"
    using assms(2) by (metis of_int_less_iff of_int_numeral of_int_power)
  then have "binade (of_int n) \<le> 52"
    using binade_le [OF pos, of 53] by simp
  then have k: "binade (of_int n) - 52 \<le> 0"
    by simp
  define j where "j = nat (- (binade (of_int n) - 52))"
  have p: "(2::rat) powi (binade (of_int n) - 52) = 1 / 2 ^ j"
    using powi_nonpos [OF k] by (simp add: j_def)
  have e: "(of_int n :: rat) / (1 / 2 ^ j) = of_int (n * 2 ^ j)"
    by simp
  have "fl (of_int n) = of_int (roundHalfEven (of_int (n * 2 ^ j))) * (1 / 2 ^ j)"
    by (simp only: fl_pos [OF pos] p e)
  also have "\<dots> = of_int (n * 2 ^ j) * (1 / 2 ^ j)"
    by (simp only: roundHalfEven_of_int)
  also have "\<dots> = of_int n"
    by simp
  finally show ?thesis .
qed

text \<open>Rounding stays above an integer that the exact value reaches.\<close>

lemma fl_ge_of_int:
  assumes "0 < K" and "of_int K \<le> q" and "q < 2 ^ 53"
  shows "of_int K \<le> fl q"
proof -
  have pos: "0 < q"
    using assms(1,2) by (smt (verit) of_int_0_less_iff order_less_le_trans)
  have "binade q \<le> 52"
    using binade_le [OF pos assms(3)] by simp
  then have k: "binade q - 52 \<le> 0"
    by simp
  define j where "j = nat (- (binade q - 52))"
  have p: "(2::rat) powi (binade q - 52) = 1 / 2 ^ j"
    using powi_nonpos [OF k] by (simp add: j_def)
  have "(of_int (K * 2 ^ j) :: rat) \<le> q * 2 ^ j"
    using assms(2) by simp
  then have "K * 2 ^ j \<le> \<lfloor>q * 2 ^ j\<rfloor>"
    by (simp add: le_floor_iff)
  also have "\<dots> \<le> roundHalfEven (q * 2 ^ j)"
    by (rule roundHalfEven_ge_floor)
  finally have "(of_int (K * 2 ^ j) :: rat) \<le> of_int (roundHalfEven (q * 2 ^ j))"
    by (simp only: of_int_le_iff)
  then have "(of_int K :: rat) * 2 ^ j \<le> of_int (roundHalfEven (q * 2 ^ j))"
    by simp
  then have "(of_int K :: rat) \<le> of_int (roundHalfEven (q * 2 ^ j)) / 2 ^ j"
    by (simp add: pos_le_divide_eq)
  then show ?thesis
    by (simp add: fl_pos [OF pos] p)
qed

text \<open>The rounding error of a positive number below \<open>2 ^ n\<close> is at most \<open>2 ^ (n - 54)\<close>.\<close>

lemma fl_error:
  assumes "0 < q" and "q < 2 ^ n" and "0 < n"
  shows "\<bar>fl q - q\<bar> \<le> 2 powi (int n - 54)"
proof -
  define k where "k = binade q - 52"
  have kn: "k \<le> int n - 53"
    using binade_le [OF assms] by (simp add: k_def)
  have pk: "(0::rat) < 2 powi k"
    by (simp add: zero_less_power_int)
  have "fl q - q = (of_int (roundHalfEven (q / 2 powi k)) - q / 2 powi k) * 2 powi k"
    using pk by (simp add: fl_pos [OF assms(1)] k_def field_simps)
  then have "\<bar>fl q - q\<bar> = \<bar>of_int (roundHalfEven (q / 2 powi k)) - q / 2 powi k\<bar> * 2 powi k"
    using pk by (simp add: abs_mult)
  also have "\<dots> \<le> 1 / 2 * 2 powi k"
    using roundHalfEven_near [of "q / 2 powi k"] pk by (simp add: mult_right_mono)
  also have "\<dots> = 2 powi (k - 1)"
    by (simp add: power_int_diff)
  also have "\<dots> \<le> 2 powi (int n - 54)"
    using kn by (intro power_int_increasing) simp_all
  finally show ?thesis .
qed

lemma fl_of_nat: "n < 2 ^ 53 \<Longrightarrow> fl (of_nat n) = of_nat n"
proof -
  assume "n < 2 ^ 53"
  then have "int n < 2 ^ 53"
    by (metis of_nat_less_iff of_nat_numeral of_nat_power)
  then have "fl (of_int (int n)) = of_int (int n)"
    by (intro fl_of_int) simp_all
  then show ?thesis
    by simp
qed

lemma num_of_nat: "n < 2 ^ 53 \<Longrightarrow> num (int n) = Some (of_nat n)"
  using fl_of_nat [of n] by (simp add: num_def)

lemma fl_nonneg: "0 \<le> q \<Longrightarrow> 0 \<le> fl q"
proof (cases "q = 0")
  case True
  then show ?thesis
    by (simp add: fl_def)
next
  case False
  assume "0 \<le> q"
  with False have pos: "0 < q"
    by simp
  let ?y = "q / 2 powi (binade q - 52)"
  have "0 \<le> ?y"
    using pos by (simp add: zero_le_power_int)
  then have "0 \<le> \<lfloor>?y\<rfloor>"
    by simp
  then have "0 \<le> roundHalfEven ?y"
    using roundHalfEven_ge_floor [of ?y] by linarith
  then show ?thesis
    by (simp add: fl_pos [OF pos] zero_le_power_int)
qed

text \<open>
  \<open>Math.floor\<close> of a double product \<open>x\<close> that lies at or just above \<open>m / 10\<close> for a natural
  number \<open>m\<close>: rounding does not move \<open>x\<close> across an integer, so the floor is \<open>m div 10\<close>.
\<close>

lemma floor_fl_near_tenths:
  fixes x :: rat and m :: nat
  assumes lo: "of_nat m / 10 \<le> x" and hi: "x \<le> of_nat m / 10 + 1 / 200"
    and m: "m < 2 ^ 49"
  shows "\<lfloor>fl x\<rfloor> = int (m div 10)"
proof -
  define q where "q = m div 10"
  define r where "r = m mod 10"
  have "m = 10 * q + r"
    by (simp add: q_def r_def)
  then have "(of_nat m :: rat) = 10 * of_nat q + of_nat r"
    by (metis of_nat_add of_nat_mult of_nat_numeral)
  then have mq: "(of_nat m :: rat) / 10 = of_nat q + of_nat r / 10"
    by simp
  have "r \<le> 9"
    by (simp add: r_def)
  then have r9: "(of_nat r :: rat) \<le> 9"
    by (metis of_nat_le_iff of_nat_numeral)
  have mr: "(of_nat m :: rat) < 2 ^ 49"
    using m by (metis of_nat_less_iff of_nat_numeral of_nat_power)
  have x0: "0 \<le> x"
    using lo by (meson divide_nonneg_nonneg of_nat_0_le_iff order_trans zero_le_numeral)
  have x49: "x < 2 ^ 49"
    using hi mr by simp
  have x53: "x < 2 ^ 53"
    using x49 by simp
  have err: "\<bar>fl x - x\<bar> \<le> 1 / 32" if "0 < x"
  proof -
    have "\<bar>fl x - x\<bar> \<le> 2 powi (int 49 - 54)"
      by (rule fl_error [OF that x49]) simp
    moreover have "(2::rat) powi (int 49 - 54) = 1 / 32"
      by (simp add: power_int_def power_divide)
    ultimately show ?thesis
      by simp
  qed
  have lower: "of_nat q \<le> fl x"
  proof (cases "q = 0")
    case True
    then show ?thesis
      using fl_nonneg [OF x0] by simp
  next
    case qpos: False
    then have "(1::rat) \<le> of_nat q"
      by (metis One_nat_def Suc_leI neq0_conv of_nat_1 of_nat_le_iff)
    with lo mq have qx: "(of_nat q :: rat) \<le> x" "0 < x"
      by simp_all
    show ?thesis
    proof (cases "r = 0")
      case True
      have "of_int (int q) \<le> fl x"
        by (rule fl_ge_of_int) (use qpos qx x53 in simp_all)
      then show ?thesis
        by simp
    next
      case False
      then have "(1::rat) \<le> of_nat r"
        by (metis One_nat_def Suc_leI neq0_conv of_nat_1 of_nat_le_iff)
      moreover have "of_nat q + of_nat r / 10 \<le> x"
        using lo mq by simp
      ultimately show ?thesis
        using err [OF qx(2)] by linarith
    qed
  qed
  have upper: "fl x < of_nat q + 1"
  proof (cases "x = 0")
    case True
    have "(0::rat) \<le> of_nat q"
      by simp
    then show ?thesis
      using True by (simp add: fl_def)
  next
    case False
    with x0 have "0 < x"
      by simp
    moreover have "x \<le> of_nat q + of_nat r / 10 + 1 / 200"
      using hi mq by simp
    ultimately show ?thesis
      using err [of] r9 by linarith
  qed
  have "\<lfloor>fl x\<rfloor> = int q"
    using lower upper by (simp add: floor_unique)
  then show ?thesis
    by (simp add: q_def)
qed

section \<open>Printing and parsing integers\<close>

lemma of_char_digitChar: "d < 10 \<Longrightarrow> (of_char (digitChar d) :: nat) = 48 + d"
  by (simp add: digitChar_def)
lemma digitValue_digitChar: "d < 10 \<Longrightarrow> digitValue 10 (digitChar d) = Some d"
  by (simp add: digitValue_def hexValue_def of_char_digitChar)
lemma digitChar_plain:
  assumes "d < 10"
  shows "\<not> isWhite (digitChar d)" "digitChar d \<noteq> CHR ''-''" "digitChar d \<noteq> CHR ''+''"
    "digitChar d \<noteq> CHR ''x''" "digitChar d \<noteq> CHR ''X''"
proof -
  show "\<not> isWhite (digitChar d)"
    using assms by (simp add: isWhite_def of_char_digitChar)
  have "(of_char (digitChar d) :: nat) \<noteq> of_char c" if "(of_char c :: nat) < 48 \<or> 57 < (of_char c :: nat)" for c
    using that assms by (auto simp: of_char_digitChar)
  then have ne: "digitChar d \<noteq> c" if "(of_char c :: nat) < 48 \<or> 57 < (of_char c :: nat)" for c
    using that by blast
  show "digitChar d \<noteq> CHR ''-''" "digitChar d \<noteq> CHR ''+''"
    "digitChar d \<noteq> CHR ''x''" "digitChar d \<noteq> CHR ''X''"
    by (rule ne, simp)+
qed

lemma toString_digits: "\<forall>c \<in> set (toString n). \<exists>d<10. c = digitChar d"
proof (induction n rule: toString.induct)
  case (1 n)
  show ?case
  proof (cases "n < 10")
    case True
    then show ?thesis
      by (subst toString.simps) auto
  next
    case False
    have "n mod 10 < 10"
      by simp
    with False 1 show ?thesis
      by (subst toString.simps) (auto intro: exI [of _ "n mod 10"])
  qed
qed

lemma toString_not_empty: "toString n \<noteq> []"
  by (subst toString.simps) simp

lemma digitsValue_snoc:
  "digitsValue 10 (ds @ [digitChar d]) = 10 * digitsValue 10 ds + the (digitValue 10 (digitChar d))"
  by (simp add: digitsValue_def)

lemma digitsValue_toString: "digitsValue 10 (toString n) = n"
proof (induction n rule: toString.induct)
  case (1 n)
  show ?case
  proof (cases "n < 10")
    case True
    then have "toString n = [digitChar n]"
      by (subst toString.simps) simp
    with True show ?thesis
      by (simp add: digitsValue_def digitValue_digitChar)
  next
    case False
    then have "toString n = toString (n div 10) @ [digitChar (n mod 10)]"
      by (subst toString.simps) simp
    moreover have "digitValue 10 (digitChar (n mod 10)) = Some (n mod 10)"
      by (rule digitValue_digitChar) simp
    ultimately show ?thesis
      using 1 [OF False] by (simp add: digitsValue_snoc)
  qed
qed

text \<open>\<open>parseInt\<close> reads back the number that \<open>toString\<close> has printed.\<close>

lemma parseInt_toString: "parseInt (toString n) = num (int n)"
proof -
  obtain c cs where cs: "toString n = c # cs"
    using toString_not_empty [of n] by (cases "toString n") auto
  have digits: "\<forall>c \<in> set (toString n). digitValue 10 c \<noteq> None"
    using toString_digits [of n] by (auto simp: digitValue_digitChar)
  obtain d where d: "d < 10" "c = digitChar d"
    using toString_digits [of n] cs by auto
  have second: "take 2 (c # cs) \<noteq> ''0x''" "take 2 (c # cs) \<noteq> ''0X''"
  proof -
    show "take 2 (c # cs) \<noteq> ''0x''"
    proof (cases cs)
      case Nil
      then show ?thesis by simp
    next
      case (Cons c' cs')
      then obtain d' where "d' < 10" "c' = digitChar d'"
        using toString_digits [of n] cs by auto
      then show ?thesis
        using Cons digitChar_plain(4) [of d'] by (simp add: numeral_2_eq_2)
    qed
    show "take 2 (c # cs) \<noteq> ''0X''"
    proof (cases cs)
      case Nil
      then show ?thesis by simp
    next
      case (Cons c' cs')
      then obtain d' where "d' < 10" "c' = digitChar d'"
        using toString_digits [of n] cs by auto
      then show ?thesis
        using Cons digitChar_plain(5) [of d'] by (simp add: numeral_2_eq_2)
    qed
  qed
  have "parseDigits 10 (toString n) False = num (int n)"
    using digits toString_not_empty [of n]
    by (simp add: parseDigits_def Let_def digitsValue_toString takeWhile_eq_all_conv [THEN iffD2])
  moreover have "\<not> (take 2 (c # cs) = ''0x'' \<or> take 2 (c # cs) = ''0X'')"
    using second by blast
  then have "parseUnsigned (c # cs) False = parseDigits 10 (c # cs) False"
    unfolding parseUnsigned_def by (rule if_not_P)
  ultimately have "parseUnsigned (c # cs) False = num (int n)"
    using cs by simp
  then show ?thesis
    using digitChar_plain(1,2,3) [OF d(1)] d(2) cs by (simp add: parseInt_def)
qed

section \<open>The amounts of the prize computations\<close>

lemma num_small: "num 10 = Some 10" "num 100 = Some 100"
  using fl_of_int [of 10] fl_of_int [of 100] by (simp_all add: num_def)

lemma jsMul_of_nat:
  "a * b < 2 ^ 53 \<Longrightarrow> jsMul (Some (of_nat a)) (Some (of_nat b)) = Some (of_nat (a * b))"
  using fl_of_nat [of "a * b"] by (simp add: jsMul_def)

lemma jsSub_of_nat:
  "b \<le> a \<Longrightarrow> a < 2 ^ 53 \<Longrightarrow>
   jsSub (Some (of_nat a)) (Some (of_nat b)) = Some (of_nat (a - b))"
  using fl_of_nat [of "a - b"] by (simp add: jsSub_def of_nat_diff)

lemma below_49: "n < 2 ^ 49 \<Longrightarrow> n < 2 ^ 53 \<and> n * 10 < (2::nat) ^ 53"
  by simp

text \<open>
  The post-win confirmation, for a pool of \<open>n\<close> points (below \<open>2 ^ 49\<close>): commission
  \<open>n div 10\<close>, prize \<open>n - n div 10\<close>.
\<close>

lemma checkGameResult_prize_value:
  assumes "room_prizePool r = toString n" and "n < 2 ^ 49"
  shows "checkGameResult_prize r
           = (Some (of_nat n), Some (of_nat (n div 10)), Some (of_nat (n - n div 10)))"
proof -
  note b = below_49 [OF assms(2)]
  have p: "parseInt (room_prizePool r) = Some (of_nat n)"
    using b by (simp add: assms(1) parseInt_toString num_of_nat)
  have m: "jsMul (Some (of_nat n)) (num 10) = Some (of_nat (n * 10))"
    using jsMul_of_nat [of n 10] b by (simp add: num_small)
  have "\<lfloor>fl (of_nat (n * 10) / 100)\<rfloor> = int (n div 10)"
    by (rule floor_fl_near_tenths) (use assms(2) in simp_all)
  then have f: "mathFloor (jsDiv (Some (of_nat (n * 10))) (num 100)) = Some (of_nat (n div 10))"
    by (simp add: mathFloor_def jsDiv_def num_small)
  have s: "jsSub (Some (of_nat n)) (Some (of_nat (n div 10))) = Some (of_nat (n - n div 10))"
    by (rule jsSub_of_nat) (use b in simp_all)
  show ?thesis
    unfolding checkGameResult_prize_def Let_def p m f s ..
qed

text \<open>The double literals \<open>0.1\<close> and \<open>0.9\<close> lie just above one tenth and nine tenths.\<close>

lemma literal_tenths:
  "literal (1 / 10) = Some (1 / 10 + 1 / 180143985094819840)"
  "literal (9 / 10) = Some (9 / 10 + 1 / 45035996273704960)"
  by code_simp+

text \<open>
  The rendered breakdown, for entry fee \<open>fee\<close> and \<open>seats\<close> seats with a pool \<open>g\<close> below
  \<open>2 ^ 45\<close>: pool \<open>g\<close>, commission \<open>g div 10\<close>, winner's prize \<open>9 * g div 10\<close>.
\<close>

lemma breakdown_value:
  assumes "s_entryFee s = toString fee" and "s_maxPlayers s = int seats" and "0 < seats"
    and "seats < 2 ^ 53" and "fee * seats < 2 ^ 45"
  shows "breakdownPool (Some s) = Some (of_nat (fee * seats))"
    and "breakdownCommission (Some s) = Some (of_nat (fee * seats div 10))"
    and "breakdownWinnerPrize (Some s) = Some (of_nat (9 * (fee * seats) div 10))"
proof -
  define g where "g = fee * seats"
  have g45: "g < 2 ^ 45"
    using assms(5) by (simp add: g_def)
  have "fee \<le> g"
    using assms(3) by (simp add: g_def)
  with g45 have small: "fee < 2 ^ 53" "g < 2 ^ 53"
    by simp_all
  have guard: "breakdownGuard (Some s)"
    using assms(1,2,3) by (simp add: breakdownGuard_def toString_not_empty)
  have pool: "jsMul (parseInt (s_entryFee s)) (num (s_maxPlayers s)) = Some (of_nat g)"
    using jsMul_of_nat [of fee seats] small assms(4)
    by (simp add: assms(1,2) parseInt_toString num_of_nat g_def)
  have gr: "(of_nat g :: rat) < 2 ^ 45"
    using g45 by (metis of_nat_less_iff of_nat_numeral of_nat_power)
  have g0: "(0::rat) \<le> of_nat g"
    by simp
  have "\<lfloor>fl (of_nat g * (1 / 10 + 1 / 180143985094819840))\<rfloor> = int (g div 10)"
  proof (rule floor_fl_near_tenths)
    show "of_nat g / 10 \<le> (of_nat g :: rat) * (1 / 10 + 1 / 180143985094819840)"
      using g0 by (simp add: algebra_simps)
    show "(of_nat g :: rat) * (1 / 10 + 1 / 180143985094819840) \<le> of_nat g / 10 + 1 / 200"
      using gr by (simp add: algebra_simps)
    show "g < 2 ^ 49"
      using g45 by simp
  qed
  then have c: "mathFloor (jsMul (Some (of_nat g)) (literal (1 / 10))) = Some (of_nat (g div 10))"
    by (simp add: mathFloor_def jsMul_def literal_tenths)
  have "\<lfloor>fl (of_nat g * (9 / 10 + 1 / 45035996273704960))\<rfloor> = int (9 * g div 10)"
  proof (rule floor_fl_near_tenths)
    show "of_nat (9 * g) / 10 \<le> (of_nat g :: rat) * (9 / 10 + 1 / 45035996273704960)"
      using g0 by (simp add: algebra_simps)
    show "(of_nat g :: rat) * (9 / 10 + 1 / 45035996273704960) \<le> of_nat (9 * g) / 10 + 1 / 200"
      using gr by (simp add: algebra_simps)
    show "9 * g < 2 ^ 49"
      using g45 by simp
  qed
  then have w: "mathFloor (jsMul (Some (of_nat g)) (literal (9 / 10)))
                  = Some (of_nat (9 * g div 10))"
    by (simp add: mathFloor_def jsMul_def literal_tenths)
  show "breakdownPool (Some s) = Some (of_nat (fee * seats))"
    using guard pool by (simp add: breakdownPool_def g_def)
  show "breakdownCommission (Some s) = Some (of_nat (fee * seats div 10))"
    using guard pool c by (simp add: breakdownCommission_def g_def)
  show "breakdownWinnerPrize (Some s) = Some (of_nat (9 * (fee * seats) div 10))"
    using guard pool w by (simp add: breakdownWinnerPrize_def g_def)
qed

text \<open>
  Prize and commission of the post-win confirmation add up to the pool. The winner's prize of
  the rendered breakdown equals the prize of the post-win confirmation exactly when the pool
  is a multiple of 10; otherwise it is one point less.
\<close>

lemma tenths_bounds:
  fixes g :: nat
  shows "10 * (g div 10) \<le> g" "g < 10 * (g div 10) + 10"
    "10 * (9 * g div 10) \<le> 9 * g" "9 * g < 10 * (9 * g div 10) + 10"
proof -
  have "g mod 10 < 10" "9 * g mod 10 < 10"
    by simp_all
  moreover have "g = 10 * (g div 10) + g mod 10" "9 * g = 10 * (9 * g div 10) + 9 * g mod 10"
    by simp_all
  ultimately show "10 * (g div 10) \<le> g" "g < 10 * (g div 10) + 10"
    "10 * (9 * g div 10) \<le> 9 * g" "9 * g < 10 * (9 * g div 10) + 10"
    by linarith+
qed

lemma prize_sums:
  fixes g :: nat
  shows "g - g div 10 = 9 * g div 10 \<longleftrightarrow> g mod 10 = 0"
    and "g - g div 10 + g div 10 = g"
    and "g mod 10 \<noteq> 0 \<Longrightarrow> 9 * g div 10 + 1 = g - g div 10"
proof -
  define a where "a = g div 10"
  define b where "b = 9 * g div 10"
  note t = tenths_bounds [of g, folded a_def b_def]
  have m: "g mod 10 = g - 10 * a"
    unfolding a_def by (simp add: minus_mult_div_eq_mod mult.commute)
  show "g - g div 10 = 9 * g div 10 \<longleftrightarrow> g mod 10 = 0"
    unfolding m a_def [symmetric] b_def [symmetric] using t by linarith
  show "g - g div 10 + g div 10 = g"
    unfolding a_def [symmetric] using t by linarith
  show "9 * g div 10 + 1 = g - g div 10" if "g mod 10 \<noteq> 0"
    using that unfolding m a_def [symmetric] b_def [symmetric] using t by linarith
qed

text \<open>
  The prize of the post-win confirmation and the winner's prize of the rendered breakdown are
  the same number exactly when the pool is a multiple of 10.
\<close>

lemma prize_sites_agree_iff:
  assumes "0 < seats" and "seats < 2 ^ 53" and "fee * seats < 2 ^ 45"
  shows "snd (snd (checkGameResult_prize (fullRoom fee seats)))
           = breakdownWinnerPrize (Some (sessionOf (fullRoom fee seats) isCreator))
         \<longleftrightarrow> fee * seats mod 10 = 0"
proof -
  define g where "g = fee * seats"
  have "g < 2 ^ 49"
    using assms(3) by (simp add: g_def)
  then have a: "checkGameResult_prize (fullRoom fee seats)
           = (Some (of_nat g), Some (of_nat (g div 10)), Some (of_nat (g - g div 10)))"
    by (intro checkGameResult_prize_value) (simp_all add: fullRoom_def g_def)
  have b: "breakdownWinnerPrize (Some (sessionOf (fullRoom fee seats) isCreator))
           = Some (of_nat (9 * g div 10))"
    unfolding g_def
    by (rule breakdown_value(3) [OF _ _ assms]) (simp_all add: sessionOf_def fullRoom_def)
  have "snd (snd (checkGameResult_prize (fullRoom fee seats))) = Some (of_nat (g - g div 10))"
    by (simp only: a snd_conv)
  moreover have "(Some (of_nat (g - g div 10)) :: number) = Some (of_nat (9 * g div 10))
      \<longleftrightarrow> g - g div 10 = 9 * g div 10"
    by (simp only: option.inject of_nat_eq_iff)
  ultimately have "snd (snd (checkGameResult_prize (fullRoom fee seats)))
           = breakdownWinnerPrize (Some (sessionOf (fullRoom fee seats) isCreator))
         \<longleftrightarrow> g mod 10 = 0"
    by (simp only: b prize_sums(1))
  then show ?thesis
    by (simp only: g_def)
qed

section \<open>The prize at its call sites\<close>

text \<open>The post-win confirmation and the claim flow compute the same three amounts.\<close>

lemma checkGameResult_prize_eq_handleClaimPrize_prize:
  "checkGameResult_prize r = handleClaimPrize_prize r"
  by (simp add: checkGameResult_prize_def handleClaimPrize_prize_def)

text \<open>
  C1. For entry fee 1 and two seats (a pool of 2 points), the post-win confirmation and the
  claim flow give a prize of 2, and the prize breakdown that the page renders gives a
  winner's prize of 1.
\<close>

theorem prize_sites_diverge:
  "checkGameResult_prize (fullRoom 1 2) = (Some 2, Some 0, Some 2)
   \<and> handleClaimPrize_prize (fullRoom 1 2) = (Some 2, Some 0, Some 2)
   \<and> breakdownPool (Some (sessionOf (fullRoom 1 2) False)) = Some 2
   \<and> breakdownCommission (Some (sessionOf (fullRoom 1 2) False)) = Some 0
   \<and> breakdownWinnerPrize (Some (sessionOf (fullRoom 1 2) False)) = Some 1"
  by code_simp

text \<open>
  C4. For entry fee 15 and three seats (a pool of 45 points), the rendered breakdown shows a
  commission of 4 and a winner's prize of 40, which add up to 44; the post-win confirmation
  computes 4 and 41.
\<close>

theorem breakdown_not_conserved:
  "breakdownPool (Some (sessionOf (fullRoom 15 3) False)) = Some 45
   \<and> breakdownCommission (Some (sessionOf (fullRoom 15 3) False)) = Some 4
   \<and> breakdownWinnerPrize (Some (sessionOf (fullRoom 15 3) False)) = Some 40
   \<and> checkGameResult_prize (fullRoom 15 3) = (Some 45, Some 4, Some 41)"
  by code_simp

text \<open>Entry fee 50 and two seats: pool 100, commission 10, prize 90, at every site.\<close>

lemma prize_of_50_times_2:
  "checkGameResult_prize (fullRoom 50 2) = (Some 100, Some 10, Some 90)"
  "handleClaimPrize_prize (fullRoom 50 2) = (Some 100, Some 10, Some 90)"
  "roomDetails_prize (fullRoom 50 2) = (Some 100, Some 10, Some 90)"
  "breakdownPool (Some (sessionOf (fullRoom 50 2) False)) = Some 100"
  "breakdownCommission (Some (sessionOf (fullRoom 50 2) False)) = Some 10"
  "breakdownWinnerPrize (Some (sessionOf (fullRoom 50 2) False)) = Some 90"
  by code_simp+

end
